theory Spec2Isabelle
  imports Main "HOL-Library.Monad_Syntax" "HOL-Library.AList" "HOL-Library.Word"
begin


section \<open>Values and strings\<close>

text \<open>
  Go's \<^verbatim>\<open>int\<close> is modelled as \<open>int\<close>, \<^verbatim>\<open>int32\<close> as a 32-bit word (the
  conversion \<^verbatim>\<open>int32(v)\<close> truncates, \<^verbatim>\<open>int(w)\<close> sign-extends), and
  \<^verbatim>\<open>float64\<close> as its 64 bits: the code only copies floats.
  A pointer is an \<open>option\<close>; dereferencing \<^verbatim>\<open>nil\<close>, a failed type assertion and
  an index out of range make the Go runtime panic, which is the value \<open>None\<close> of the
  functions below.
\<close>

type_synonym int32 = "32 word"
type_synonym float64 = "64 word"

definition int32_of_int :: "int \<Rightarrow> int32" where
  "int32_of_int v = word_of_int v"

definition int_of_int32 :: "int32 \<Rightarrow> int" where
  "int_of_int32 w = sint w"

text \<open>
  What the flatten functions build: \<^verbatim>\<open>interface{}\<close> values, with
  \<^verbatim>\<open>map[string]interface{}\<close> as an association list (assignment \<^verbatim>\<open>m[k] = v\<close> is
  \<open>AList.update\<close>, lookup is \<open>map_of\<close>) and \<^verbatim>\<open>*schema.Set\<close> as the list of
  its items under their hash codes.
\<close>

datatype val =
    VString string
  | VStringPtr "string option"
  | VInt int
  | VInt32 int32
  | VFloat float64
  | VBool bool
  | VList "val list"
  | VMap "(string \<times> val) list"
  | VSet "(int \<times> val) list"

text \<open>
  \<^verbatim>\<open>strings.ToUpper\<close>, on the ASCII letters: the schema admits for the protocol,
  the one string the source converts, only \<^verbatim>\<open>tcp\<close> and \<^verbatim>\<open>udp\<close> in any letter
  case.
\<close>

definition to_upper_char :: "char \<Rightarrow> char" where
  "to_upper_char c =
     (if 97 \<le> (of_char c :: nat) \<and> (of_char c :: nat) \<le> 122
      then char_of ((of_char c :: nat) - 32) else c)"

definition strings_ToUpper :: "string \<Rightarrow> string" where
  "strings_ToUpper s = map to_upper_char s"

text \<open>
  \<^verbatim>\<open>strings.Split(s, sep)\<close> and \<^verbatim>\<open>strings.Join(a, sep)\<close> for a separator of one
  character (the source passes \<^verbatim>\<open>" "\<close>). Splitting the empty string gives one empty
  field.
\<close>

fun strings_Split :: "string \<Rightarrow> char \<Rightarrow> string list" where
  "strings_Split [] sep = [[]]"
| "strings_Split (c # cs) sep =
     (if c = sep then [] # strings_Split cs sep
      else (case strings_Split cs sep of
              [] \<Rightarrow> [[c]]
            | w # ws \<Rightarrow> (c # w) # ws))"

fun strings_Join :: "string list \<Rightarrow> char \<Rightarrow> string" where
  "strings_Join [] sep = []"
| "strings_Join [w] sep = w"
| "strings_Join (w # ws) sep = w @ sep # strings_Join ws sep"

section \<open>Errors\<close>

text \<open>
  Go errors are values. \<open>ClientError\<close> is an error handed back by the SDK client or by
  a helper outside this code, opaque here. The other constructors name the errors the
  source builds: the messages of \<^verbatim>\<open>fmt.Errorf\<close> with their arguments (the kind of
  resource, its name and resource group, the error wrapped), the two errors of the wait
  for a terminal state, and the conflict error of \<^verbatim>\<open>tf.ImportAsExistsError\<close> (resource
  type and identifier of the object that exists).
\<close>

datatype error =
    ClientError string
  | ErrorCheckingExistence string string string error
  | ImportAsExistsError string string
  | CannotReadID string string string
  | ErrorSetting string error
  | ErrorWaiting string string error
  | ErrorMakingRead string error
  | ErrorDeleting string string error
  | ErrorIssuingRead string string error
  | UnexpectedStateError string
  | TimeoutError
  | OrchestrationPlatformInvalid
  | MasterProfileCountInvalid
  | AgentPoolProfileCountInvalid

section \<open>Container group: the SDK's remote object\<close>

text \<open>
  The structs of \<^verbatim>\<open>containerinstance\<close> (API 2018-04-01), with the fields this code
  reads or writes. \<^verbatim>\<open>Container\<close> embeds \<^verbatim>\<open>*ContainerProperties\<close> and
  \<^verbatim>\<open>ContainerGroup\<close> embeds \<^verbatim>\<open>*ContainerGroupProperties\<close>: a promoted field
  such as \<^verbatim>\<open>container.Image\<close> dereferences the embedded pointer.
\<close>

record ResourceRequests =
  rq_MemoryInGB :: "float64 option"
  rq_CPU :: "float64 option"

record ResourceRequirements =
  rr_Requests :: "ResourceRequests option"

record ContainerPort =
  cport_Port :: "int32 option"

record Port =
  port_Protocol :: string
  port_Port :: "int32 option"

record EnvironmentVariable =
  ev_Name :: "string option"
  ev_Value :: "string option"

record VolumeMount =
  vm_Name :: "string option"
  vm_MountPath :: "string option"
  vm_ReadOnly :: "bool option"

record AzureFileVolume =
  af_ShareName :: "string option"
  af_ReadOnly :: "bool option"
  af_StorageAccountName :: "string option"
  af_StorageAccountKey :: "string option"

record Volume =
  vol_Name :: "string option"
  vol_AzureFile :: "AzureFileVolume option"

record ContainerProperties =
  cp_Image :: "string option"
  cp_Command :: "string list option"
  cp_Ports :: "ContainerPort list option"
  cp_EnvironmentVariables :: "EnvironmentVariable list option"
  cp_Resources :: "ResourceRequirements option"
  cp_VolumeMounts :: "VolumeMount list option"

record Container =
  ctr_Name :: "string option"
  ctr_ContainerProperties :: "ContainerProperties option"

record ImageRegistryCredential =
  irc_Server :: "string option"
  irc_Username :: "string option"
  irc_Password :: "string option"

record IPAddress =
  ip_Ports :: "Port list option"
  ip_Type :: "string option"
  ip_IP :: "string option"
  ip_DNSNameLabel :: "string option"
  ip_Fqdn :: "string option"

record ContainerGroupProperties =
  cgp_Containers :: "Container list option"
  cgp_ImageRegistryCredentials :: "ImageRegistryCredential list option"
  cgp_RestartPolicy :: string
  cgp_IPAddress :: "IPAddress option"
  cgp_OsType :: string
  cgp_Volumes :: "Volume list option"

text \<open>
  \<open>cg_Response\<close> is the status code of the embedded \<^verbatim>\<open>autorest.Response\<close>
  (\<open>None\<close> when no HTTP response came back).
\<close>

record ContainerGroup =
  cg_Response :: "nat option"
  cg_Properties :: "ContainerGroupProperties option"
  cg_ID :: "string option"
  cg_Name :: "string option"
  cg_Location :: "string option"
  cg_Tags :: "(string \<times> string option) list"

section \<open>Container group: the configuration read with \<^verbatim>\<open>d.Get\<close>\<close>

text \<open>
  The schema of \<^verbatim>\<open>resourceArmContainerGroup\<close> fixes the type of every key, so a
  nested block is a record of typed fields. Keys the source reads with the
  comma-ok form (\<^verbatim>\<open>v, ok := data["volume"]\<close>, \<^verbatim>\<open>v, _ := data["port"]\<close>) are
  \<open>option\<close>s: \<open>None\<close> is a key absent from the map. The schema reader fills every key
  of a block, with the zero value where the configuration is silent.
\<close>

record volume_config =
  v_name :: string
  v_mount_path :: string
  v_read_only :: bool
  v_share_name :: string
  v_storage_account_name :: string
  v_storage_account_key :: string

record container_config =
  c_name :: string
  c_image :: string
  c_cpu :: float64
  c_memory :: float64
  c_port :: "int option"
  c_protocol :: "string option"
  c_environment_variables :: "(string \<times> string) list option"
  c_command :: "string option"
  c_volume :: "volume_config list option"

record credential_config =
  cred_server :: string
  cred_username :: string
  cred_password :: string

section \<open>Container group: expand\<close>

text \<open>\<^verbatim>\<open>expandContainerVolumes\<close>: one mount and one group-level volume per entry.\<close>

definition expand_volume_mount :: "volume_config \<Rightarrow> VolumeMount" where
  "expand_volume_mount volumeConfig =
     \<lparr> vm_Name = Some (v_name volumeConfig),
       vm_MountPath = Some (v_mount_path volumeConfig),
       vm_ReadOnly = Some (v_read_only volumeConfig) \<rparr>"

definition expand_volume :: "volume_config \<Rightarrow> Volume" where
  "expand_volume volumeConfig =
     \<lparr> vol_Name = Some (v_name volumeConfig),
       vol_AzureFile = Some
         \<lparr> af_ShareName = Some (v_share_name volumeConfig),
           af_ReadOnly = Some (v_read_only volumeConfig),
           af_StorageAccountName = Some (v_storage_account_name volumeConfig),
           af_StorageAccountKey = Some (v_storage_account_key volumeConfig) \<rparr> \<rparr>"

definition expandContainerVolumes ::
  "volume_config list \<Rightarrow> VolumeMount list option \<times> Volume list option" where
  "expandContainerVolumes volumesRaw =
     (if length volumesRaw = 0 then (None, None)
      else (Some (map expand_volume_mount volumesRaw), Some (map expand_volume volumesRaw)))"

text \<open>
  \<^verbatim>\<open>expandContainerEnvironmentVariables\<close>: Go ranges over the map in no fixed order;
  the order of the association list stands for the order of that run.
\<close>

definition expandContainerEnvironmentVariables ::
  "(string \<times> string) list \<Rightarrow> EnvironmentVariable list option" where
  "expandContainerEnvironmentVariables envVars =
     Some (map (\<lambda>(k, v). \<lparr> ev_Name = Some k, ev_Value = Some v \<rparr>) envVars)"

text \<open>
  The body of the loop of \<^verbatim>\<open>expandContainerGroupContainers\<close>, on the three slices
  it appends to. \<^verbatim>\<open>v, _ := data["port"]; v != 0\<close> holds for an absent key too (a
  nil interface is not 0), and the assertion \<^verbatim>\<open>v.(int)\<close> then panics; likewise
  for \<^verbatim>\<open>command\<close>.
\<close>

definition expand_container_step ::
  "container_config \<Rightarrow> Container list \<times> Port list \<times> Volume list
     \<Rightarrow> (Container list \<times> Port list \<times> Volume list) option" where
  "expand_container_step data acc =
     (case acc of (containers, containerGroupPorts, containerGroupVolumes) \<Rightarrow>
      let props0 =
            \<lparr> cp_Image = Some (c_image data),
              cp_Command = None,
              cp_Ports = None,
              cp_EnvironmentVariables = None,
              cp_Resources = Some \<lparr> rr_Requests = Some
                 \<lparr> rq_MemoryInGB = Some (c_memory data), rq_CPU = Some (c_cpu data) \<rparr> \<rparr>,
              cp_VolumeMounts = None \<rparr>
      in do {
        v \<leftarrow> c_port data;
        let (props1, containerGroupPorts1) =
          (if v \<noteq> 0 then
             let port = int32_of_int v;
                 containerGroupPort = \<lparr> port_Protocol = [], port_Port = Some port \<rparr>;
                 containerGroupPort1 =
                   (case c_protocol data of
                      Some protocol \<Rightarrow>
                        containerGroupPort\<lparr> port_Protocol := strings_ToUpper protocol \<rparr>
                    | None \<Rightarrow> containerGroupPort)
             in (props0\<lparr> cp_Ports := Some [\<lparr> cport_Port = Some port \<rparr>] \<rparr>,
                 containerGroupPorts @ [containerGroupPort1])
           else (props0, containerGroupPorts));
        let props2 =
          (case c_environment_variables data of
             Some envVars \<Rightarrow>
               props1\<lparr> cp_EnvironmentVariables := expandContainerEnvironmentVariables envVars \<rparr>
           | None \<Rightarrow> props1);
        command \<leftarrow> c_command data;
        let props3 =
          (if command \<noteq> [] then props2\<lparr> cp_Command := Some (strings_Split command (CHR '' '')) \<rparr>
           else props2);
        let (props4, containerGroupVolumes1) =
          (case c_volume data of
             Some volumesRaw \<Rightarrow>
               (case expandContainerVolumes volumesRaw of
                  (volumeMounts, containerGroupVolumesPartial) \<Rightarrow>
                    (props3\<lparr> cp_VolumeMounts := volumeMounts \<rparr>,
                     (case containerGroupVolumesPartial of
                        Some partial \<Rightarrow> containerGroupVolumes @ partial
                      | None \<Rightarrow> containerGroupVolumes)))
           | None \<Rightarrow> (props3, containerGroupVolumes));
        Some (containers @ [\<lparr> ctr_Name = Some (c_name data), ctr_ContainerProperties = Some props4 \<rparr>],
              containerGroupPorts1, containerGroupVolumes1)
      })"

fun expand_containers_loop ::
  "container_config list \<Rightarrow> Container list \<times> Port list \<times> Volume list
     \<Rightarrow> (Container list \<times> Port list \<times> Volume list) option" where
  "expand_containers_loop [] acc = Some acc"
| "expand_containers_loop (containerConfig # rest) acc =
     (case expand_container_step containerConfig acc of
        None \<Rightarrow> None
      | Some acc' \<Rightarrow> expand_containers_loop rest acc')"

definition expandContainerGroupContainers ::
  "container_config list
     \<Rightarrow> (Container list option \<times> Port list option \<times> Volume list option) option" where
  "expandContainerGroupContainers containersConfig =
     (case expand_containers_loop containersConfig ([], [], []) of
        None \<Rightarrow> None
      | Some (containers, containerGroupPorts, containerGroupVolumes) \<Rightarrow>
          Some (Some containers, Some containerGroupPorts, Some containerGroupVolumes))"

text \<open>\<^verbatim>\<open>expandContainerImageRegistryCredentials\<close>.\<close>

definition expandContainerImageRegistryCredentials ::
  "credential_config list \<Rightarrow> ImageRegistryCredential list option" where
  "expandContainerImageRegistryCredentials credsRaw =
     (if length credsRaw = 0 then None
      else Some (map (\<lambda>credConfig.
             \<lparr> irc_Server = Some (cred_server credConfig),
               irc_Username = Some (cred_username credConfig),
               irc_Password = Some (cred_password credConfig) \<rparr>) credsRaw))"

section \<open>Container group: flatten\<close>

text \<open>\<^verbatim>\<open>flattenContainerEnvironmentVariables\<close>: \<^verbatim>\<open>output[k] = v\<close> per variable.\<close>

fun flatten_environment_loop ::
  "EnvironmentVariable list \<Rightarrow> (string \<times> val) list \<Rightarrow> (string \<times> val) list option" where
  "flatten_environment_loop [] output = Some output"
| "flatten_environment_loop (envVar # rest) output =
     do {
       k \<leftarrow> ev_Name envVar;
       v \<leftarrow> ev_Value envVar;
       flatten_environment_loop rest (AList.update k (VString v) output)
     }"

definition flattenContainerEnvironmentVariables ::
  "EnvironmentVariable list option \<Rightarrow> (string \<times> val) list option" where
  "flattenContainerEnvironmentVariables input =
     do { envVars \<leftarrow> input; flatten_environment_loop envVars [] }"

text \<open>
  \<^verbatim>\<open>flattenContainerVolumes\<close>. The inner loop over the group-level volumes compares
  \<^verbatim>\<open>*cgv.Name == *vm.Name\<close> and copies the share and the account name of every
  volume that matches (a later match overwrites an earlier one).
\<close>

fun group_volume_loop ::
  "Volume list \<Rightarrow> string \<Rightarrow> (string \<times> val) list \<Rightarrow> (string \<times> val) list option" where
  "group_volume_loop [] vmName volumeConfig = Some volumeConfig"
| "group_volume_loop (cgv # rest) vmName volumeConfig =
     do {
       cgvName \<leftarrow> vol_Name cgv;
       volumeConfig' \<leftarrow>
         (if cgvName = vmName then
            (case vol_AzureFile cgv of
               Some azureFile \<Rightarrow>
                 do {
                   shareName \<leftarrow> af_ShareName azureFile;
                   storageAccountName \<leftarrow> af_StorageAccountName azureFile;
                   Some (AList.update ''storage_account_name'' (VString storageAccountName)
                          (AList.update ''share_name'' (VString shareName) volumeConfig))
                 }
             | None \<Rightarrow> Some volumeConfig)
          else Some volumeConfig);
       group_volume_loop rest vmName volumeConfig'
     }"

text \<open>The loop over the volumes of the prior configuration, which brings the key back.\<close>

fun config_volume_loop ::
  "volume_config list \<Rightarrow> string \<Rightarrow> (string \<times> val) list \<Rightarrow> (string \<times> val) list" where
  "config_volume_loop [] vmName volumeConfig = volumeConfig"
| "config_volume_loop (cv # rest) vmName volumeConfig =
     config_volume_loop rest vmName
       (if vmName = v_name cv
        then AList.update ''storage_account_key'' (VString (v_storage_account_key cv)) volumeConfig
        else volumeConfig)"

text \<open>The body of the loop over the volume mounts: one \<^verbatim>\<open>volumeConfig\<close> per mount.\<close>

definition flatten_volume_mount ::
  "Volume list option \<Rightarrow> volume_config list option \<Rightarrow> VolumeMount \<Rightarrow> val option" where
  "flatten_volume_mount containerGroupVolumes containerVolumesConfig vm =
     do {
       vmName \<leftarrow> vm_Name vm;
       mountPath \<leftarrow> vm_MountPath vm;
       let volumeConfig0 =
             AList.update ''mount_path'' (VString mountPath)
               (AList.update ''name'' (VString vmName) []);
       let volumeConfig1 =
             (case vm_ReadOnly vm of
                Some readOnly \<Rightarrow> AList.update ''read_only'' (VBool readOnly) volumeConfig0
              | None \<Rightarrow> volumeConfig0);
       groupVolumes \<leftarrow> containerGroupVolumes;
       volumeConfig2 \<leftarrow> group_volume_loop groupVolumes vmName volumeConfig1;
       let volumeConfig3 =
             (case containerVolumesConfig of
                Some config \<Rightarrow> config_volume_loop config vmName volumeConfig2
              | None \<Rightarrow> volumeConfig2);
       Some (VMap volumeConfig3)
     }"

fun flatten_volumes_loop ::
  "Volume list option \<Rightarrow> volume_config list option \<Rightarrow> VolumeMount list \<Rightarrow> val list option" where
  "flatten_volumes_loop containerGroupVolumes containerVolumesConfig [] = Some []"
| "flatten_volumes_loop containerGroupVolumes containerVolumesConfig (vm # rest) =
     do {
       volumeConfig \<leftarrow> flatten_volume_mount containerGroupVolumes containerVolumesConfig vm;
       volumeConfigs \<leftarrow> flatten_volumes_loop containerGroupVolumes containerVolumesConfig rest;
       Some (volumeConfig # volumeConfigs)
     }"

definition flattenContainerVolumes ::
  "VolumeMount list option \<Rightarrow> Volume list option \<Rightarrow> volume_config list option
     \<Rightarrow> val list option" where
  "flattenContainerVolumes volumeMounts containerGroupVolumes containerVolumesConfig =
     do {
       mounts \<leftarrow> volumeMounts;
       flatten_volumes_loop containerGroupVolumes containerVolumesConfig mounts
     }"

text \<open>
  \<^verbatim>\<open>flattenContainerGroupContainers\<close>. The protocol is not part of the container;
  it is looked up among the ports of the group by port number.
\<close>

fun group_port_loop :: "Port list \<Rightarrow> int32 \<Rightarrow> string \<Rightarrow> string option" where
  "group_port_loop [] containerPort protocol = Some protocol"
| "group_port_loop (cgPort # rest) containerPort protocol =
     do {
       p \<leftarrow> port_Port cgPort;
       group_port_loop rest containerPort
         (if p = containerPort then port_Protocol cgPort else protocol)
     }"

text \<open>
  The loop over \<^verbatim>\<open>d.Get("container")\<close> that finds the volumes the prior
  configuration declares for the container of that name.
\<close>

fun container_volumes_config_loop ::
  "container_config list \<Rightarrow> string \<Rightarrow> volume_config list option \<Rightarrow> volume_config list option" where
  "container_volumes_config_loop [] containerName containerVolumesConfig = containerVolumesConfig"
| "container_volumes_config_loop (data # rest) containerName containerVolumesConfig =
     container_volumes_config_loop rest containerName
       (if c_name data = containerName
        then (case c_volume data of
                Some containerVolumesRaw \<Rightarrow> Some containerVolumesRaw
              | None \<Rightarrow> containerVolumesConfig)
        else containerVolumesConfig)"

definition flatten_container ::
  "container_config list \<Rightarrow> Port list option \<Rightarrow> Volume list option \<Rightarrow> Container
     \<Rightarrow> val option" where
  "flatten_container containersConfigRaw containerGroupPorts containerGroupVolumes container =
     do {
       name \<leftarrow> ctr_Name container;
       props \<leftarrow> ctr_ContainerProperties container;
       image \<leftarrow> cp_Image props;
       let containerConfig0 =
             AList.update ''image'' (VString image) (AList.update ''name'' (VString name) []);
       containerConfig1 \<leftarrow>
         (case cp_Resources props of
            Some resources \<Rightarrow>
              (case rr_Requests resources of
                 Some resourceRequests \<Rightarrow>
                   do {
                     cpu \<leftarrow> rq_CPU resourceRequests;
                     memory \<leftarrow> rq_MemoryInGB resourceRequests;
                     Some (AList.update ''memory'' (VFloat memory)
                            (AList.update ''cpu'' (VFloat cpu) containerConfig0))
                   }
               | None \<Rightarrow> Some containerConfig0)
          | None \<Rightarrow> Some containerConfig0);
       ports \<leftarrow> cp_Ports props;
       containerConfig2 \<leftarrow>
         (case ports of
            first # _ \<Rightarrow>
              do {
                containerPort \<leftarrow> cport_Port first;
                let withPort = AList.update ''port'' (VInt32 containerPort) containerConfig1;
                protocol \<leftarrow>
                  (case containerGroupPorts of
                     Some cgPorts \<Rightarrow> group_port_loop cgPorts containerPort []
                   | None \<Rightarrow> Some []);
                Some (if protocol \<noteq> [] then AList.update ''protocol'' (VString protocol) withPort
                      else withPort)
              }
          | [] \<Rightarrow> Some containerConfig1);
       containerConfig3 \<leftarrow>
         (case cp_EnvironmentVariables props of
            Some envVars \<Rightarrow>
              (if length envVars > 0 then
                 do {
                   env \<leftarrow> flattenContainerEnvironmentVariables (Some envVars);
                   Some (AList.update ''environment_variables'' (VMap env) containerConfig2)
                 }
               else Some containerConfig2)
          | None \<Rightarrow> Some containerConfig2);
       let containerConfig4 =
             (case cp_Command props of
                Some command \<Rightarrow>
                  AList.update ''command'' (VString (strings_Join command (CHR '' ''))) containerConfig3
              | None \<Rightarrow> containerConfig3);
       containerConfig5 \<leftarrow>
         (if containerGroupVolumes \<noteq> None \<and> cp_VolumeMounts props \<noteq> None then
            do {
              let containerVolumesConfig =
                    container_volumes_config_loop containersConfigRaw name None;
              volume \<leftarrow> flattenContainerVolumes (cp_VolumeMounts props) containerGroupVolumes
                          containerVolumesConfig;
              Some (AList.update ''volume'' (VList volume) containerConfig4)
            }
          else Some containerConfig4);
       Some (VMap containerConfig5)
     }"

fun flatten_containers_loop ::
  "container_config list \<Rightarrow> Port list option \<Rightarrow> Volume list option \<Rightarrow> Container list
     \<Rightarrow> val list option" where
  "flatten_containers_loop containersConfigRaw containerGroupPorts containerGroupVolumes [] = Some []"
| "flatten_containers_loop containersConfigRaw containerGroupPorts containerGroupVolumes
     (container # rest) =
     do {
       containerConfig \<leftarrow>
         flatten_container containersConfigRaw containerGroupPorts containerGroupVolumes container;
       containerConfigs \<leftarrow>
         flatten_containers_loop containersConfigRaw containerGroupPorts containerGroupVolumes rest;
       Some (containerConfig # containerConfigs)
     }"

text \<open>
  The first argument stands for \<^verbatim>\<open>d\<close>, of which the function reads only
  \<^verbatim>\<open>d.Get("container")\<close>.
\<close>

definition flattenContainerGroupContainers ::
  "container_config list \<Rightarrow> Container list option \<Rightarrow> Port list option \<Rightarrow> Volume list option
     \<Rightarrow> val list option" where
  "flattenContainerGroupContainers containersConfigRaw containers containerGroupPorts
     containerGroupVolumes =
     do {
       cs \<leftarrow> containers;
       flatten_containers_loop containersConfigRaw containerGroupPorts containerGroupVolumes cs
     }"

text \<open>
  \<^verbatim>\<open>flattenContainerImageRegistryCredentials\<close>. The first argument stands for
  \<^verbatim>\<open>d\<close>: the prior list \<^verbatim>\<open>d.Get("image_registry_credential")\<close>.
  \<^verbatim>\<open>d.GetOk("image_registry_credential.i.password")\<close> gives the password of the
  prior entry \<open>i\<close> and whether it is set to a value other than the zero value
  (the empty string); the source calls it only where \<open>i\<close> is within the prior list.
  The result \<open>None\<close> is the \<^verbatim>\<open>nil\<close> slice returned for a \<^verbatim>\<open>nil\<close> pointer; no
  step of the function can panic.
\<close>

definition GetOk_password :: "credential_config list \<Rightarrow> nat \<Rightarrow> string \<times> bool" where
  "GetOk_password configsOld i =
     (if i < length configsOld
      then (cred_password (configsOld ! i), cred_password (configsOld ! i) \<noteq> [])
      else ([], False))"

definition flatten_credential ::
  "credential_config list \<Rightarrow> nat \<Rightarrow> ImageRegistryCredential \<Rightarrow> val" where
  "flatten_credential configsOld i cred =
     (let credConfig0 =
            (case irc_Server cred of
               Some server \<Rightarrow> AList.update ''server'' (VString server) []
             | None \<Rightarrow> []);
          credConfig1 =
            (case irc_Username cred of
               Some username \<Rightarrow> AList.update ''username'' (VString username) credConfig0
             | None \<Rightarrow> credConfig0);
          credConfig2 =
            (if length configsOld > i then
               (let data = configsOld ! i;
                    oldServer = cred_server data
                in if irc_Server cred \<noteq> None \<and> irc_Server cred = Some oldServer then
                     (case GetOk_password configsOld i of
                        (v, ok) \<Rightarrow>
                          if ok then AList.update ''password'' (VString v) credConfig1
                          else credConfig1)
                   else credConfig1)
             else credConfig1)
      in VMap credConfig2)"

fun flatten_credentials_loop ::
  "credential_config list \<Rightarrow> nat \<Rightarrow> ImageRegistryCredential list \<Rightarrow> val list" where
  "flatten_credentials_loop configsOld i [] = []"
| "flatten_credentials_loop configsOld i (cred # rest) =
     flatten_credential configsOld i cred # flatten_credentials_loop configsOld (Suc i) rest"

definition flattenContainerImageRegistryCredentials ::
  "credential_config list \<Rightarrow> ImageRegistryCredential list option \<Rightarrow> val list option" where
  "flattenContainerImageRegistryCredentials configsOld credsPtr =
     (case credsPtr of
        None \<Rightarrow> None
      | Some creds \<Rightarrow> Some (flatten_credentials_loop configsOld 0 creds))"

section \<open>Container service: the SDK's remote object\<close>

text \<open>
  The structs of \<^verbatim>\<open>containerservice\<close> (API 2018-03-31), with the fields this code
  reads or writes. \<^verbatim>\<open>ContainerService\<close> embeds \<^verbatim>\<open>*Properties\<close>.
\<close>

record MasterProfile =
  mp_Count :: "int32 option"
  mp_DNSPrefix :: "string option"
  mp_Fqdn :: "string option"

record SSHPublicKey =
  ssh_KeyData :: "string option"

record SSHConfiguration =
  sshc_PublicKeys :: "SSHPublicKey list option"

record LinuxProfile =
  lp_AdminUsername :: "string option"
  lp_SSH :: "SSHConfiguration option"

record AgentPoolProfile =
  ap_Name :: "string option"
  ap_Count :: "int32 option"
  ap_VMSize :: string
  ap_DNSPrefix :: "string option"
  ap_Fqdn :: "string option"

record ServicePrincipalProfile =
  sp_ClientID :: "string option"
  sp_Secret :: "string option"

record VMDiagnostics =
  vmd_Enabled :: "bool option"
  vmd_StorageURI :: "string option"

record DiagnosticsProfile =
  dp_VMDiagnostics :: "VMDiagnostics option"

record OrchestratorProfileType =
  op_OrchestratorType :: string

record Properties =
  pr_ProvisioningState :: "string option"
  pr_OrchestratorProfile :: "OrchestratorProfileType option"
  pr_ServicePrincipalProfile :: "ServicePrincipalProfile option"
  pr_MasterProfile :: "MasterProfile option"
  pr_AgentPoolProfiles :: "AgentPoolProfile list option"
  pr_LinuxProfile :: "LinuxProfile option"
  pr_DiagnosticsProfile :: "DiagnosticsProfile option"

record ContainerService =
  cs_Response :: "nat option"
  cs_Properties :: "Properties option"
  cs_ID :: "string option"
  cs_Name :: "string option"
  cs_Location :: "string option"
  cs_Tags :: "(string \<times> string option) list"

section \<open>Container service: the configuration read with \<^verbatim>\<open>d.Get\<close>\<close>

text \<open>
  Each block of the schema of \<^verbatim>\<open>resourceArmContainerService\<close> is a
  \<^verbatim>\<open>TypeSet\<close>; the source reads it as \<^verbatim>\<open>d.Get(key).(*schema.Set).List()\<close>,
  which is the list below. The computed keys (\<open>fqdn\<close>, \<open>storage_uri\<close>) are never
  read by the expand functions.
\<close>

record master_profile_config =
  mpc_count :: int
  mpc_dns_prefix :: string

record ssh_key_config =
  sk_key_data :: string

record linux_profile_config =
  lpc_admin_username :: string
  lpc_ssh_key :: "ssh_key_config list"

record agent_pool_profile_config =
  apc_name :: string
  apc_count :: int
  apc_dns_prefix :: string
  apc_vm_size :: string

record service_principal_config =
  spc_client_id :: string
  spc_client_secret :: string

record diagnostics_profile_config =
  dpc_enabled :: bool

section \<open>Container service: expand\<close>

text \<open>\<^verbatim>\<open>configs[0]\<close> on an empty list panics.\<close>

definition index0 :: "'a list \<Rightarrow> 'a option" where
  "index0 xs = (case xs of [] \<Rightarrow> None | x # _ \<Rightarrow> Some x)"

definition expandAzureRmContainerServiceDiagnostics ::
  "diagnostics_profile_config list \<Rightarrow> DiagnosticsProfile option" where
  "expandAzureRmContainerServiceDiagnostics configs =
     do {
       data \<leftarrow> index0 configs;
       let enabled = dpc_enabled data;
       Some \<lparr> dp_VMDiagnostics = Some \<lparr> vmd_Enabled = Some enabled, vmd_StorageURI = None \<rparr> \<rparr>
     }"

definition expandAzureRmContainerServiceLinuxProfile ::
  "linux_profile_config list \<Rightarrow> LinuxProfile option" where
  "expandAzureRmContainerServiceLinuxProfile profiles =
     do {
       config \<leftarrow> index0 profiles;
       let adminUsername = lpc_admin_username config;
       let linuxKeys = lpc_ssh_key config;
       key \<leftarrow> index0 linuxKeys;
       let keyData = sk_key_data key;
       let sshPublicKeys = [] @ [\<lparr> ssh_KeyData = Some keyData \<rparr>];
       Some \<lparr> lp_AdminUsername = Some adminUsername,
              lp_SSH = Some \<lparr> sshc_PublicKeys = Some sshPublicKeys \<rparr> \<rparr>
     }"

definition expandAzureRmContainerServiceMasterProfile ::
  "master_profile_config list \<Rightarrow> MasterProfile option" where
  "expandAzureRmContainerServiceMasterProfile configs =
     do {
       config \<leftarrow> index0 configs;
       let count = int32_of_int (mpc_count config);
       let dnsPrefix = mpc_dns_prefix config;
       Some \<lparr> mp_Count = Some count, mp_DNSPrefix = Some dnsPrefix, mp_Fqdn = None \<rparr>
     }"

text \<open>
  \<^verbatim>\<open>d.GetOk("service_principal")\<close> reports a set that is not empty. The outer
  \<open>option\<close> is the panic, the inner one the \<^verbatim>\<open>nil\<close> returned for an unset block.
\<close>

definition expandAzureRmContainerServiceServicePrincipal ::
  "service_principal_config list \<Rightarrow> ServicePrincipalProfile option option" where
  "expandAzureRmContainerServiceServicePrincipal configs =
     (let exists = (configs \<noteq> []) in
      if \<not> exists then Some None
      else do {
        config \<leftarrow> index0 configs;
        let clientId = spc_client_id config;
        let clientSecret = spc_client_secret config;
        Some (Some \<lparr> sp_ClientID = Some clientId, sp_Secret = Some clientSecret \<rparr>)
      })"

definition expandAzureRmContainerServiceAgentProfiles ::
  "agent_pool_profile_config list \<Rightarrow> AgentPoolProfile list option" where
  "expandAzureRmContainerServiceAgentProfiles configs =
     do {
       config \<leftarrow> index0 configs;
       let profile =
         \<lparr> ap_Name = Some (apc_name config),
           ap_Count = Some (int32_of_int (apc_count config)),
           ap_VMSize = apc_vm_size config,
           ap_DNSPrefix = Some (apc_dns_prefix config),
           ap_Fqdn = None \<rparr>;
       Some ([] @ [profile])
     }"

section \<open>Container service: the hash functions of the sets\<close>

text \<open>
  \<^verbatim>\<open>fmt.Sprintf("%d-", n)\<close> prints the integer in decimal, \<^verbatim>\<open>"%t"\<close> prints
  \<^verbatim>\<open>true\<close> or \<^verbatim>\<open>false\<close>. \<^verbatim>\<open>hashcode.String\<close> (the vendored helper that
  hashes the buffer) is the parameter \<open>H\<close> of every function below. A type assertion
  on a key that is absent or of another type panics; a value that is not a map leaves
  the buffer empty.
\<close>

definition digit_char :: "nat \<Rightarrow> char" where
  "digit_char n = char_of (48 + n)"

fun decimal_digits :: "nat \<Rightarrow> string" where
  "decimal_digits n =
     (if n < 10 then [digit_char n] else decimal_digits (n div 10) @ [digit_char (n mod 10)])"

declare decimal_digits.simps [simp del]

definition Sprintf_d :: "int \<Rightarrow> string" where
  "Sprintf_d i = (if i < 0 then CHR ''-'' # decimal_digits (nat (- i)) else decimal_digits (nat i))"

definition Sprintf_t :: "bool \<Rightarrow> string" where
  "Sprintf_t b = (if b then ''true'' else ''false'')"

definition assert_int :: "val option \<Rightarrow> int option" where
  "assert_int v = (case v of Some (VInt i) \<Rightarrow> Some i | _ \<Rightarrow> None)"

definition assert_string :: "val option \<Rightarrow> string option" where
  "assert_string v = (case v of Some (VString s) \<Rightarrow> Some s | _ \<Rightarrow> None)"

definition assert_bool :: "val option \<Rightarrow> bool option" where
  "assert_bool v = (case v of Some (VBool b) \<Rightarrow> Some b | _ \<Rightarrow> None)"

definition resourceAzureRMContainerServiceMasterProfileHash ::
  "(string \<Rightarrow> int) \<Rightarrow> val \<Rightarrow> int option" where
  "resourceAzureRMContainerServiceMasterProfileHash H v =
     (case v of
        VMap m \<Rightarrow>
          do {
            count \<leftarrow> assert_int (map_of m ''count'');
            dns_prefix \<leftarrow> assert_string (map_of m ''dns_prefix'');
            Some (H ((Sprintf_d count @ ''-'') @ (dns_prefix @ ''-'')))
          }
      | _ \<Rightarrow> Some (H []))"

definition resourceAzureRMContainerServiceLinuxProfilesHash ::
  "(string \<Rightarrow> int) \<Rightarrow> val \<Rightarrow> int option" where
  "resourceAzureRMContainerServiceLinuxProfilesHash H v =
     (case v of
        VMap m \<Rightarrow>
          do {
            admin_username \<leftarrow> assert_string (map_of m ''admin_username'');
            Some (H (admin_username @ ''-''))
          }
      | _ \<Rightarrow> Some (H []))"

definition resourceAzureRMContainerServiceLinuxProfilesSSHKeysHash ::
  "(string \<Rightarrow> int) \<Rightarrow> val \<Rightarrow> int option" where
  "resourceAzureRMContainerServiceLinuxProfilesSSHKeysHash H v =
     (case v of
        VMap m \<Rightarrow>
          do {
            key_data \<leftarrow> assert_string (map_of m ''key_data'');
            Some (H (key_data @ ''-''))
          }
      | _ \<Rightarrow> Some (H []))"

definition resourceAzureRMContainerServiceAgentPoolProfilesHash ::
  "(string \<Rightarrow> int) \<Rightarrow> val \<Rightarrow> int option" where
  "resourceAzureRMContainerServiceAgentPoolProfilesHash H v =
     (case v of
        VMap m \<Rightarrow>
          do {
            count \<leftarrow> assert_int (map_of m ''count'');
            dns_prefix \<leftarrow> assert_string (map_of m ''dns_prefix'');
            name \<leftarrow> assert_string (map_of m ''name'');
            vm_size \<leftarrow> assert_string (map_of m ''vm_size'');
            Some (H ((Sprintf_d count @ ''-'') @ (dns_prefix @ ''-'') @ (name @ ''-'')
                      @ (vm_size @ ''-'')))
          }
      | _ \<Rightarrow> Some (H []))"

definition resourceAzureRMContainerServiceServicePrincipalProfileHash ::
  "(string \<Rightarrow> int) \<Rightarrow> val \<Rightarrow> int option" where
  "resourceAzureRMContainerServiceServicePrincipalProfileHash H v =
     (case v of
        VMap m \<Rightarrow>
          do {
            client_id \<leftarrow> assert_string (map_of m ''client_id'');
            Some (H (client_id @ ''-''))
          }
      | _ \<Rightarrow> Some (H []))"

definition resourceAzureRMContainerServiceDiagnosticProfilesHash ::
  "(string \<Rightarrow> int) \<Rightarrow> val \<Rightarrow> int option" where
  "resourceAzureRMContainerServiceDiagnosticProfilesHash H v =
     (case v of
        VMap m \<Rightarrow>
          do {
            enabled \<leftarrow> assert_bool (map_of m ''enabled'');
            Some (H (Sprintf_t enabled))
          }
      | _ \<Rightarrow> Some (H []))"

section \<open>Container service: flatten\<close>

text \<open>
  Modelled from the spec: \<^verbatim>\<open>schema.Set\<close> with its method \<^verbatim>\<open>Add\<close> (the vendored
  schema engine, not under src/), from the note on per-field hashing used for
  set-equality comparisons: a collection whose items are identified by the hash code
  the resource supplies in \<^verbatim>\<open>F\<close>; adding an item whose code the set already holds
  leaves the set as it is.
\<close>

type_synonym schema_Set = "(int \<times> val) list"

definition Set_Add :: "(val \<Rightarrow> int option) \<Rightarrow> schema_Set \<Rightarrow> val \<Rightarrow> schema_Set option" where
  "Set_Add F s item =
     do {
       code \<leftarrow> F item;
       Some (if code \<in> fst ` set s then s else s @ [(code, item)])
     }"

definition flattenAzureRmContainerServiceMasterProfile ::
  "(string \<Rightarrow> int) \<Rightarrow> MasterProfile \<Rightarrow> schema_Set option" where
  "flattenAzureRmContainerServiceMasterProfile H profile =
     do {
       count \<leftarrow> mp_Count profile;
       let masterProfile0 = AList.update ''count'' (VInt (int_of_int32 count)) [];
       dnsPrefix \<leftarrow> mp_DNSPrefix profile;
       let masterProfile1 = AList.update ''dns_prefix'' (VString dnsPrefix) masterProfile0;
       fqdn \<leftarrow> mp_Fqdn profile;
       let masterProfile2 = AList.update ''fqdn'' (VString fqdn) masterProfile1;
       Set_Add (resourceAzureRMContainerServiceMasterProfileHash H) [] (VMap masterProfile2)
     }"

fun flatten_ssh_keys_loop ::
  "(string \<Rightarrow> int) \<Rightarrow> SSHPublicKey list \<Rightarrow> schema_Set \<Rightarrow> schema_Set option" where
  "flatten_ssh_keys_loop H [] sshKeys = Some sshKeys"
| "flatten_ssh_keys_loop H (ssh # rest) sshKeys =
     do {
       keyData \<leftarrow> ssh_KeyData ssh;
       let keys = AList.update ''key_data'' (VString keyData) [];
       sshKeys' \<leftarrow> Set_Add (resourceAzureRMContainerServiceLinuxProfilesSSHKeysHash H) sshKeys
                     (VMap keys);
       flatten_ssh_keys_loop H rest sshKeys'
     }"

definition flattenAzureRmContainerServiceLinuxProfile ::
  "(string \<Rightarrow> int) \<Rightarrow> LinuxProfile \<Rightarrow> schema_Set option" where
  "flattenAzureRmContainerServiceLinuxProfile H profile =
     do {
       sshConfig \<leftarrow> lp_SSH profile;
       publicKeys \<leftarrow> sshc_PublicKeys sshConfig;
       sshKeys \<leftarrow> flatten_ssh_keys_loop H publicKeys [];
       adminUsername \<leftarrow> lp_AdminUsername profile;
       let values0 = AList.update ''admin_username'' (VString adminUsername) [];
       let values1 = AList.update ''ssh_key'' (VSet sshKeys) values0;
       Set_Add (resourceAzureRMContainerServiceLinuxProfilesHash H) [] (VMap values1)
     }"

fun flatten_agent_pool_loop ::
  "(string \<Rightarrow> int) \<Rightarrow> AgentPoolProfile list \<Rightarrow> schema_Set \<Rightarrow> schema_Set option" where
  "flatten_agent_pool_loop H [] agentPoolProfiles = Some agentPoolProfiles"
| "flatten_agent_pool_loop H (profile # rest) agentPoolProfiles =
     do {
       count \<leftarrow> ap_Count profile;
       let agentPoolProfile0 = AList.update ''count'' (VInt (int_of_int32 count)) [];
       dnsPrefix \<leftarrow> ap_DNSPrefix profile;
       let agentPoolProfile1 = AList.update ''dns_prefix'' (VString dnsPrefix) agentPoolProfile0;
       fqdn \<leftarrow> ap_Fqdn profile;
       let agentPoolProfile2 = AList.update ''fqdn'' (VString fqdn) agentPoolProfile1;
       name \<leftarrow> ap_Name profile;
       let agentPoolProfile3 = AList.update ''name'' (VString name) agentPoolProfile2;
       let agentPoolProfile4 =
             AList.update ''vm_size'' (VString (ap_VMSize profile)) agentPoolProfile3;
       agentPoolProfiles' \<leftarrow>
         Set_Add (resourceAzureRMContainerServiceAgentPoolProfilesHash H) agentPoolProfiles
           (VMap agentPoolProfile4);
       flatten_agent_pool_loop H rest agentPoolProfiles'
     }"

definition flattenAzureRmContainerServiceAgentPoolProfiles ::
  "(string \<Rightarrow> int) \<Rightarrow> AgentPoolProfile list option \<Rightarrow> schema_Set option" where
  "flattenAzureRmContainerServiceAgentPoolProfiles H profiles =
     do {
       ps \<leftarrow> profiles;
       flatten_agent_pool_loop H ps []
     }"

text \<open>The outer \<open>option\<close> is the panic, the inner one the \<^verbatim>\<open>nil\<close> result.\<close>

definition flattenAzureRmContainerServiceServicePrincipalProfile ::
  "(string \<Rightarrow> int) \<Rightarrow> ServicePrincipalProfile option \<Rightarrow> schema_Set option option" where
  "flattenAzureRmContainerServiceServicePrincipalProfile H profile =
     (case profile of
        None \<Rightarrow> Some None
      | Some p \<Rightarrow>
          do {
            clientID \<leftarrow> sp_ClientID p;
            let values0 = AList.update ''client_id'' (VString clientID) [];
            let values1 =
                  (case sp_Secret p of
                     Some secret \<Rightarrow> AList.update ''client_secret'' (VString secret) values0
                   | None \<Rightarrow> values0);
            s \<leftarrow> Set_Add (resourceAzureRMContainerServiceServicePrincipalProfileHash H) []
                   (VMap values1);
            Some (Some s)
          })"

definition flattenAzureRmContainerServiceDiagnosticsProfile ::
  "(string \<Rightarrow> int) \<Rightarrow> DiagnosticsProfile option \<Rightarrow> schema_Set option" where
  "flattenAzureRmContainerServiceDiagnosticsProfile H profile =
     do {
       p \<leftarrow> profile;
       vmDiagnostics \<leftarrow> dp_VMDiagnostics p;
       enabled \<leftarrow> vmd_Enabled vmDiagnostics;
       let values0 = AList.update ''enabled'' (VBool enabled) [];
       let values1 =
             (case vmd_StorageURI vmDiagnostics of
                Some storageURI \<Rightarrow> AList.update ''storage_uri'' (VString storageURI) values0
              | None \<Rightarrow> values0);
       Set_Add (resourceAzureRMContainerServiceDiagnosticProfilesHash H) [] (VMap values1)
     }"

section \<open>Collaborators: helpers, the schema engine and the SDK clients\<close>

text \<open>
  Modelled from the spec: \<^verbatim>\<open>utils.ResponseWasNotFound\<close> (package
  \<^verbatim>\<open>azurerm/utils\<close>, not under src/): the remote API reports "not found",
  distinguishable from other errors. The argument is the status code of the HTTP
  response, \<open>None\<close> when there is none.
\<close>

definition ResponseWasNotFound :: "nat option \<Rightarrow> bool" where
  "ResponseWasNotFound r = (r = Some 404)"

text \<open>
  The helpers of the provider that are not under src/ are parameters:
  \<^verbatim>\<open>parseAzureResourceID\<close>, \<^verbatim>\<open>azureRMNormalizeLocation\<close>, \<^verbatim>\<open>expandTags\<close>,
  \<^verbatim>\<open>flattenAndSetTags\<close>, \<^verbatim>\<open>hashcode.String\<close>, and \<^verbatim>\<open>d.Set\<close> of the schema
  engine, which takes the attributes stored so far, a key and a value and gives the
  attributes and its error.
\<close>

record ResourceID =
  rid_ResourceGroup :: string
  rid_Path :: "(string \<times> string) list"

definition Path_index :: "ResourceID \<Rightarrow> string \<Rightarrow> string" where
  "Path_index rid k = (case map_of (rid_Path rid) k of None \<Rightarrow> [] | Some v \<Rightarrow> v)"

record env =
  env_parseAzureResourceID :: "string \<Rightarrow> error + ResourceID"
  env_azureRMNormalizeLocation :: "string \<Rightarrow> string"
  env_expandTags :: "(string \<times> val) list \<Rightarrow> (string \<times> string option) list"
  env_flattenAndSetTags ::
    "(string \<times> val) list \<Rightarrow> (string \<times> string option) list \<Rightarrow> (string \<times> val) list"
  env_Set :: "(string \<times> val) list \<Rightarrow> string \<Rightarrow> val \<Rightarrow> (string \<times> val) list \<times> error option"
  env_hashcode_String :: "string \<Rightarrow> int"

text \<open>
  The SDK clients. A call is answered from the calls issued before it, so a client is
  any deterministic remote; every operation below appends the call it issues to the
  log it is given.
\<close>

datatype cg_call =
    CG_Get string string
  | CG_CreateOrUpdate string string ContainerGroup
  | CG_Delete string string

record ContainerGroupsClient =
  cgc_Get :: "cg_call list \<Rightarrow> string \<Rightarrow> string \<Rightarrow> ContainerGroup \<times> error option"
  cgc_CreateOrUpdate ::
    "cg_call list \<Rightarrow> string \<Rightarrow> string \<Rightarrow> ContainerGroup \<Rightarrow> ContainerGroup \<times> error option"
  cgc_Delete :: "cg_call list \<Rightarrow> string \<Rightarrow> string \<Rightarrow> ContainerGroup \<times> error option"

datatype cs_call =
    CS_Get string string
  | CS_CreateOrUpdate string string ContainerService
  | CS_Delete string string
  | CS_WaitForCompletionRef

text \<open>
  \<^verbatim>\<open>Delete\<close> of the container service client returns a future, of which the
  model keeps the status code of its HTTP response, and an error;
  \<^verbatim>\<open>future.WaitForCompletionRef\<close> is \<open>csc_WaitForCompletionRef\<close>.
\<close>

record ContainerServicesClient =
  csc_Get :: "cs_call list \<Rightarrow> string \<Rightarrow> string \<Rightarrow> ContainerService \<times> error option"
  csc_CreateOrUpdate ::
    "cs_call list \<Rightarrow> string \<Rightarrow> string \<Rightarrow> ContainerService \<Rightarrow> error option"
  csc_Delete :: "cs_call list \<Rightarrow> string \<Rightarrow> string \<Rightarrow> nat option \<times> error option"
  csc_WaitForCompletionRef :: "cs_call list \<Rightarrow> error option"

section \<open>Container group: create, read, delete\<close>

text \<open>
  \<^verbatim>\<open>d\<close> for a container group: the identifier, what \<^verbatim>\<open>d.Get\<close> returns for each
  key of the schema, and the attributes stored with \<^verbatim>\<open>d.Set\<close>.
\<close>

record GroupData =
  gd_Id :: string
  gd_name :: string
  gd_resource_group_name :: string
  gd_location :: string
  gd_ip_address_type :: string
  gd_os_type :: string
  gd_restart_policy :: string
  gd_dns_name_label :: string
  gd_tags :: "(string \<times> val) list"
  gd_image_registry_credential :: "credential_config list"
  gd_container :: "container_config list"
  gd_attributes :: "(string \<times> val) list"

definition gd_Set :: "env \<Rightarrow> GroupData \<Rightarrow> string \<Rightarrow> val \<Rightarrow> GroupData \<times> error option" where
  "gd_Set e d key v =
     (case env_Set e (gd_attributes d) key v of
        (attrs, err) \<Rightarrow> (d\<lparr> gd_attributes := attrs \<rparr>, err))"

text \<open>
  The request of \<^verbatim>\<open>resourceArmContainerGroupCreate\<close>: the struct built between the
  existence check and the call of \<^verbatim>\<open>CreateOrUpdate\<close>.
\<close>

definition expand_container_group :: "env \<Rightarrow> GroupData \<Rightarrow> ContainerGroup option" where
  "expand_container_group e d =
     (let name = gd_name d;
          location = env_azureRMNormalizeLocation e (gd_location d);
          OSType = gd_os_type d;
          IPAddressType = gd_ip_address_type d;
          tags = gd_tags d;
          restartPolicy = gd_restart_policy d
      in do {
        (containers, containerGroupPorts, containerGroupVolumes) \<leftarrow>
          expandContainerGroupContainers (gd_container d);
        let ipAddress =
              \<lparr> ip_Ports = containerGroupPorts, ip_Type = Some IPAddressType, ip_IP = None,
                ip_DNSNameLabel = None, ip_Fqdn = None \<rparr>;
        let dnsNameLabel = gd_dns_name_label d;
        let ipAddress1 =
              (if dnsNameLabel \<noteq> [] then ipAddress\<lparr> ip_DNSNameLabel := Some dnsNameLabel \<rparr>
               else ipAddress);
        Some \<lparr> cg_Response = None,
               cg_Properties = Some
                 \<lparr> cgp_Containers = containers,
                   cgp_ImageRegistryCredentials =
                     expandContainerImageRegistryCredentials (gd_image_registry_credential d),
                   cgp_RestartPolicy = restartPolicy,
                   cgp_IPAddress = Some ipAddress1,
                   cgp_OsType = OSType,
                   cgp_Volumes = containerGroupVolumes \<rparr>,
               cg_ID = None,
               cg_Name = Some name,
               cg_Location = Some location,
               cg_Tags = env_expandTags e tags \<rparr>
      })"

text \<open>
  What \<^verbatim>\<open>resourceArmContainerGroupRead\<close> stores once the remote object is read.
  \<^verbatim>\<open>resp.ImageRegistryCredentials\<close> goes through the embedded pointer to the
  properties and panics when it is \<^verbatim>\<open>nil\<close>.
\<close>

definition slice_val :: "val list option \<Rightarrow> val" where
  "slice_val xs = (case xs of None \<Rightarrow> VList [] | Some l \<Rightarrow> VList l)"

definition flatten_container_group ::
  "env \<Rightarrow> GroupData \<Rightarrow> string \<Rightarrow> string \<Rightarrow> ContainerGroup \<Rightarrow> (error option \<times> GroupData) option" where
  "flatten_container_group e d resGroup name resp =
     (let d1 = fst (gd_Set e d ''name'' (VString name));
          d2 = fst (gd_Set e d1 ''resource_group_name'' (VString resGroup));
          d3 = (case cg_Location resp of
                  Some location \<Rightarrow>
                    fst (gd_Set e d2 ''location'' (VString (env_azureRMNormalizeLocation e location)))
                | None \<Rightarrow> d2);
          d4 = d3\<lparr> gd_attributes := env_flattenAndSetTags e (gd_attributes d3) (cg_Tags resp) \<rparr>
      in do {
        props \<leftarrow> cg_Properties resp;
        let creds = flattenContainerImageRegistryCredentials (gd_image_registry_credential d4)
                      (cgp_ImageRegistryCredentials props);
        (case gd_Set e d4 ''image_registry_credential'' (slice_val creds) of
           (d5, Some err) \<Rightarrow> Some (Some (ErrorSetting ''capabilities'' err), d5)
         | (d5, None) \<Rightarrow>
             (let d6 = fst (gd_Set e d5 ''os_type'' (VString (cgp_OsType props)));
                  d7 = (case cgp_IPAddress props of
                          Some address \<Rightarrow>
                            (let a1 = fst (gd_Set e d6 ''ip_address_type'' (VStringPtr (ip_Type address)));
                                 a2 = fst (gd_Set e a1 ''ip_address'' (VStringPtr (ip_IP address)));
                                 a3 = fst (gd_Set e a2 ''dns_name_label''
                                             (VStringPtr (ip_DNSNameLabel address)))
                             in fst (gd_Set e a3 ''fqdn'' (VStringPtr (ip_Fqdn address))))
                        | None \<Rightarrow> d6);
                  d8 = fst (gd_Set e d7 ''restart_policy'' (VString (cgp_RestartPolicy props)))
              in do {
                address \<leftarrow> cgp_IPAddress props;
                containerConfigs \<leftarrow>
                  flattenContainerGroupContainers (gd_container d8) (cgp_Containers props)
                    (ip_Ports address) (cgp_Volumes props);
                (case gd_Set e d8 ''container'' (VList containerConfigs) of
                   (d9, Some err) \<Rightarrow> Some (Some (ErrorSetting ''container'' err), d9)
                 | (d9, None) \<Rightarrow> Some (None, d9))
              }))
      })"

definition resourceArmContainerGroupRead ::
  "env \<Rightarrow> ContainerGroupsClient \<Rightarrow> GroupData \<Rightarrow> cg_call list
     \<Rightarrow> (error option \<times> GroupData \<times> cg_call list) option" where
  "resourceArmContainerGroupRead e client d log =
     (case env_parseAzureResourceID e (gd_Id d) of
        Inl err \<Rightarrow> Some (Some err, d, log)
      | Inr rid \<Rightarrow>
          (let resGroup = rid_ResourceGroup rid;
               name = Path_index rid ''containerGroups'';
               (resp, err) = cgc_Get client log resGroup name;
               log1 = log @ [CG_Get resGroup name]
           in if err \<noteq> None then
                (if ResponseWasNotFound (cg_Response resp)
                 then Some (None, d\<lparr> gd_Id := [] \<rparr>, log1)
                 else Some (err, d, log1))
              else
                (case flatten_container_group e d resGroup name resp of
                   None \<Rightarrow> None
                 | Some (result, d') \<Rightarrow> Some (result, d', log1))))"

definition resourceArmContainerGroupCreate ::
  "env \<Rightarrow> ContainerGroupsClient \<Rightarrow> GroupData \<Rightarrow> cg_call list
     \<Rightarrow> (error option \<times> GroupData \<times> cg_call list) option" where
  "resourceArmContainerGroupCreate e client d log =
     (let resGroup = gd_resource_group_name d;
          name = gd_name d;
          (resp, err) = cgc_Get client log resGroup name;
          log1 = log @ [CG_Get resGroup name]
      in if err \<noteq> None \<and> \<not> ResponseWasNotFound (cg_Response resp) then
           Some (Some (ErrorCheckingExistence ''Container Group'' name resGroup (the err)), d, log1)
         else
           (case cg_ID resp of
              Some existing \<Rightarrow>
                Some (Some (ImportAsExistsError ''azurerm_container_group'' existing), d, log1)
            | None \<Rightarrow>
                do {
                  containerGroup \<leftarrow> expand_container_group e d;
                  let (_, err2) = cgc_CreateOrUpdate client log1 resGroup name containerGroup;
                  let log2 = log1 @ [CG_CreateOrUpdate resGroup name containerGroup];
                  if err2 \<noteq> None then Some (err2, d, log2)
                  else
                    (let (read, err3) = cgc_Get client log2 resGroup name;
                         log3 = log2 @ [CG_Get resGroup name]
                     in if err3 \<noteq> None then Some (err3, d, log3)
                        else
                          (case cg_ID read of
                             None \<Rightarrow> Some (Some (CannotReadID ''container group'' name resGroup), d, log3)
                           | Some newId \<Rightarrow>
                               resourceArmContainerGroupRead e client (d\<lparr> gd_Id := newId \<rparr>) log3))
                }))"

definition resourceArmContainerGroupDelete ::
  "env \<Rightarrow> ContainerGroupsClient \<Rightarrow> GroupData \<Rightarrow> cg_call list
     \<Rightarrow> error option \<times> GroupData \<times> cg_call list" where
  "resourceArmContainerGroupDelete e client d log =
     (case env_parseAzureResourceID e (gd_Id d) of
        Inl err \<Rightarrow> (Some err, d, log)
      | Inr rid \<Rightarrow>
          (let resGroup = rid_ResourceGroup rid;
               name = Path_index rid ''containerGroups'';
               (resp, err) = cgc_Delete client log resGroup name;
               log1 = log @ [CG_Delete resGroup name]
           in if err \<noteq> None then
                (if ResponseWasNotFound (cg_Response resp) then (None, d, log1)
                 else (err, d, log1))
              else (None, d, log1)))"

section \<open>Waiting for a terminal state\<close>

text \<open>
  Modelled from the spec: \<^verbatim>\<open>resource.StateChangeConf.WaitForState\<close> (the vendored
  helper library, not under src/), the operation the spec calls AwaitTerminalState.
  It reads the state label at a fixed interval, no less than the configured floor,
  until the label is in the target set (success), a label outside both the pending and
  the target set is observed (a terminal failure), or the overall timeout has elapsed (a
  timeout error, distinct from a remote failure). An error of the refresh function ends
  the run with that error. Time is counted in seconds from the start of the run; the
  result carries the error, the time at which the run ended and the state of the remote
  side after the last read.
\<close>

record ('r, 's) StateChangeConf =
  scc_Pending :: "string list"
  scc_Target :: "string list"
  scc_Refresh :: "'s \<Rightarrow> (('r option \<times> string \<times> error option) \<times> 's) option"
  scc_Timeout :: nat
  scc_MinTimeout :: nat

definition poll_interval :: "('r, 's) StateChangeConf \<Rightarrow> nat" where
  "poll_interval conf = max 1 (scc_MinTimeout conf)"

function WaitForState ::
  "('r, 's) StateChangeConf \<Rightarrow> nat \<Rightarrow> 's \<Rightarrow> (('r option \<times> error option) \<times> nat \<times> 's) option" where
  "WaitForState conf elapsed s =
     (if scc_Timeout conf \<le> elapsed then Some ((None, Some TimeoutError), elapsed, s)
      else
        (case scc_Refresh conf s of
           None \<Rightarrow> None
         | Some ((res, label, Some err), s') \<Rightarrow> Some ((None, Some err), elapsed, s')
         | Some ((res, label, None), s') \<Rightarrow>
             if label \<in> set (scc_Target conf) then Some ((res, None), elapsed, s')
             else if label \<in> set (scc_Pending conf)
             then WaitForState conf (elapsed + poll_interval conf) s'
             else Some ((None, Some (UnexpectedStateError label)), elapsed, s')))"
  by pat_completeness auto
termination
  by (relation "measure (\<lambda>(conf, elapsed, s). scc_Timeout conf - elapsed)")
     (auto simp: poll_interval_def)

declare WaitForState.simps [simp del]

section \<open>Container service: create or update, read, delete\<close>

text \<open>
  \<^verbatim>\<open>d\<close> for a container service. \<open>sd_Timeout\<close> is the duration
  \<^verbatim>\<open>d.Timeout(tf.TimeoutForCreateUpdate(d))\<close>, in seconds.
\<close>

record ServiceData =
  sd_Id :: string
  sd_IsNewResource :: bool
  sd_Timeout :: nat
  sd_name :: string
  sd_resource_group_name :: string
  sd_location :: string
  sd_orchestration_platform :: string
  sd_master_profile :: "master_profile_config list"
  sd_linux_profile :: "linux_profile_config list"
  sd_agent_pool_profile :: "agent_pool_profile_config list"
  sd_service_principal :: "service_principal_config list"
  sd_diagnostics_profile :: "diagnostics_profile_config list"
  sd_tags :: "(string \<times> val) list"
  sd_attributes :: "(string \<times> val) list"

definition sd_Set :: "env \<Rightarrow> ServiceData \<Rightarrow> string \<Rightarrow> val \<Rightarrow> ServiceData" where
  "sd_Set e d key v = d\<lparr> sd_attributes := fst (env_Set e (sd_attributes d) key v) \<rparr>"

text \<open>\<^verbatim>\<open>containerServiceStateRefreshFunc\<close>, on the log of calls.\<close>

definition containerServiceStateRefreshFunc ::
  "ContainerServicesClient \<Rightarrow> string \<Rightarrow> string \<Rightarrow> cs_call list
     \<Rightarrow> ((ContainerService option \<times> string \<times> error option) \<times> cs_call list) option" where
  "containerServiceStateRefreshFunc client resourceGroupName containerServiceName log =
     (let (res, err) = csc_Get client log resourceGroupName containerServiceName;
          log1 = log @ [CS_Get resourceGroupName containerServiceName]
      in if err \<noteq> None then
           Some ((None, [], Some (ErrorIssuingRead containerServiceName resourceGroupName (the err))),
                 log1)
         else do {
           props \<leftarrow> cs_Properties res;
           state \<leftarrow> pr_ProvisioningState props;
           Some ((Some res, state, None), log1)
         })"

text \<open>The \<^verbatim>\<open>StateChangeConf\<close> that \<^verbatim>\<open>resourceArmContainerServiceCreateUpdate\<close> builds.\<close>

definition container_service_state_conf ::
  "ContainerServicesClient \<Rightarrow> string \<Rightarrow> string \<Rightarrow> nat
     \<Rightarrow> (ContainerService, cs_call list) StateChangeConf" where
  "container_service_state_conf client resGroup name timeout =
     \<lparr> scc_Pending = [''Updating'', ''Creating''],
       scc_Target = [''Succeeded''],
       scc_Refresh = containerServiceStateRefreshFunc client resGroup name,
       scc_Timeout = timeout,
       scc_MinTimeout = 15 \<rparr>"

text \<open>The request: the struct built before the call of \<^verbatim>\<open>CreateOrUpdate\<close>.\<close>

definition expand_container_service :: "env \<Rightarrow> ServiceData \<Rightarrow> ContainerService option" where
  "expand_container_service e d =
     (let name = sd_name d;
          location = env_azureRMNormalizeLocation e (sd_location d);
          orchestrationPlatform = sd_orchestration_platform d
      in do {
        masterProfile \<leftarrow> expandAzureRmContainerServiceMasterProfile (sd_master_profile d);
        linuxProfile \<leftarrow> expandAzureRmContainerServiceLinuxProfile (sd_linux_profile d);
        agentProfiles \<leftarrow> expandAzureRmContainerServiceAgentProfiles (sd_agent_pool_profile d);
        diagnosticsProfile \<leftarrow> expandAzureRmContainerServiceDiagnostics (sd_diagnostics_profile d);
        let tags = sd_tags d;
        let properties =
              \<lparr> pr_ProvisioningState = None,
                pr_OrchestratorProfile = Some \<lparr> op_OrchestratorType = orchestrationPlatform \<rparr>,
                pr_ServicePrincipalProfile = None,
                pr_MasterProfile = Some masterProfile,
                pr_AgentPoolProfiles = Some agentProfiles,
                pr_LinuxProfile = Some linuxProfile,
                pr_DiagnosticsProfile = Some diagnosticsProfile \<rparr>;
        servicePrincipalProfile \<leftarrow>
          expandAzureRmContainerServiceServicePrincipal (sd_service_principal d);
        let properties1 =
              (if servicePrincipalProfile \<noteq> None
               then properties\<lparr> pr_ServicePrincipalProfile := servicePrincipalProfile \<rparr>
               else properties);
        Some \<lparr> cs_Response = None,
               cs_Properties = Some properties1,
               cs_ID = None,
               cs_Name = Some name,
               cs_Location = Some location,
               cs_Tags = env_expandTags e tags \<rparr>
      })"

text \<open>What \<^verbatim>\<open>resourceArmContainerServiceRead\<close> stores once the remote object is read.\<close>

definition flatten_container_service ::
  "env \<Rightarrow> ServiceData \<Rightarrow> string \<Rightarrow> ContainerService \<Rightarrow> ServiceData option" where
  "flatten_container_service e d resGroup resp =
     (let H = env_hashcode_String e;
          d1 = sd_Set e d ''name'' (VStringPtr (cs_Name resp));
          d2 = sd_Set e d1 ''resource_group_name'' (VString resGroup);
          d3 = (case cs_Location resp of
                  Some location \<Rightarrow>
                    sd_Set e d2 ''location'' (VString (env_azureRMNormalizeLocation e location))
                | None \<Rightarrow> d2)
      in do {
        props \<leftarrow> cs_Properties resp;
        orchestratorProfile \<leftarrow> pr_OrchestratorProfile props;
        let d4 = sd_Set e d3 ''orchestration_platform''
                   (VString (op_OrchestratorType orchestratorProfile));
        masterProfile \<leftarrow> pr_MasterProfile props;
        masterProfiles \<leftarrow> flattenAzureRmContainerServiceMasterProfile H masterProfile;
        let d5 = sd_Set e d4 ''master_profile'' (VSet masterProfiles);
        linux \<leftarrow> pr_LinuxProfile props;
        linuxProfile \<leftarrow> flattenAzureRmContainerServiceLinuxProfile H linux;
        let d6 = sd_Set e d5 ''linux_profile'' (VSet linuxProfile);
        agentPoolProfiles \<leftarrow>
          flattenAzureRmContainerServiceAgentPoolProfiles H (pr_AgentPoolProfiles props);
        let d7 = sd_Set e d6 ''agent_pool_profile'' (VSet agentPoolProfiles);
        servicePrincipal \<leftarrow>
          flattenAzureRmContainerServiceServicePrincipalProfile H (pr_ServicePrincipalProfile props);
        let d8 = (case servicePrincipal of
                    Some sp \<Rightarrow> sd_Set e d7 ''service_principal'' (VSet sp)
                  | None \<Rightarrow> d7);
        diagnosticProfile \<leftarrow>
          flattenAzureRmContainerServiceDiagnosticsProfile H (pr_DiagnosticsProfile props);
        let d9 = sd_Set e d8 ''diagnostics_profile'' (VSet diagnosticProfile);
        Some (d9\<lparr> sd_attributes := env_flattenAndSetTags e (sd_attributes d9) (cs_Tags resp) \<rparr>)
      })"

definition resourceArmContainerServiceRead ::
  "env \<Rightarrow> ContainerServicesClient \<Rightarrow> ServiceData \<Rightarrow> cs_call list
     \<Rightarrow> (error option \<times> ServiceData \<times> cs_call list) option" where
  "resourceArmContainerServiceRead e client d log =
     (case env_parseAzureResourceID e (sd_Id d) of
        Inl err \<Rightarrow> Some (Some err, d, log)
      | Inr rid \<Rightarrow>
          (let resGroup = rid_ResourceGroup rid;
               name = Path_index rid ''containerServices'';
               (resp, err) = csc_Get client log resGroup name;
               log1 = log @ [CS_Get resGroup name]
           in if err \<noteq> None then
                (if ResponseWasNotFound (cs_Response resp)
                 then Some (None, d\<lparr> sd_Id := [] \<rparr>, log1)
                 else Some (Some (ErrorMakingRead name (the err)), d, log1))
              else
                (case flatten_container_service e d resGroup resp of
                   None \<Rightarrow> None
                 | Some d' \<Rightarrow> Some (None, d', log1))))"

text \<open>
  The existence check of \<^verbatim>\<open>resourceArmContainerServiceCreateUpdate\<close>, made for a new
  resource only: the error it returns, if any, and the log.
\<close>

definition container_service_existence_check ::
  "ContainerServicesClient \<Rightarrow> ServiceData \<Rightarrow> cs_call list \<Rightarrow> error option \<times> cs_call list" where
  "container_service_existence_check client d log =
     (let resGroup = sd_resource_group_name d;
          name = sd_name d
      in if sd_IsNewResource d then
           (let (resp, err) = csc_Get client log resGroup name;
                log1 = log @ [CS_Get resGroup name]
            in if err \<noteq> None \<and> \<not> ResponseWasNotFound (cs_Response resp) then
                 (Some (ErrorCheckingExistence ''Container Service'' name resGroup (the err)), log1)
               else
                 (case cs_ID resp of
                    Some existing \<Rightarrow>
                      (Some (ImportAsExistsError ''azurerm_container_service'' existing), log1)
                  | None \<Rightarrow> (None, log1)))
         else (None, log))"

definition resourceArmContainerServiceCreateUpdate ::
  "env \<Rightarrow> ContainerServicesClient \<Rightarrow> ServiceData \<Rightarrow> cs_call list
     \<Rightarrow> (error option \<times> ServiceData \<times> cs_call list) option" where
  "resourceArmContainerServiceCreateUpdate e client d log =
     (let resGroup = sd_resource_group_name d;
          name = sd_name d
      in case container_service_existence_check client d log of
           (Some err, log1) \<Rightarrow> Some (Some err, d, log1)
         | (None, log1) \<Rightarrow>
             do {
               parameters \<leftarrow> expand_container_service e d;
               let err2 = csc_CreateOrUpdate client log1 resGroup name parameters;
               let log2 = log1 @ [CS_CreateOrUpdate resGroup name parameters];
               if err2 \<noteq> None then Some (err2, d, log2)
               else
                 (let (read, err3) = csc_Get client log2 resGroup name;
                      log3 = log2 @ [CS_Get resGroup name]
                  in if err3 \<noteq> None then Some (err3, d, log3)
                     else
                       (case cs_ID read of
                          None \<Rightarrow>
                            Some (Some (CannotReadID ''Container Service'' name resGroup), d, log3)
                        | Some newId \<Rightarrow>
                            (let timeout = sd_Timeout d;
                                 stateConf = container_service_state_conf client resGroup name timeout
                             in case WaitForState stateConf 0 log3 of
                                  None \<Rightarrow> None
                                | Some ((_, Some err4), _, log4) \<Rightarrow>
                                    Some (Some (ErrorWaiting name resGroup err4), d, log4)
                                | Some ((_, None), _, log4) \<Rightarrow>
                                    resourceArmContainerServiceRead e client (d\<lparr> sd_Id := newId \<rparr>) log4)))
             })"

definition resourceArmContainerServiceDelete ::
  "env \<Rightarrow> ContainerServicesClient \<Rightarrow> ServiceData \<Rightarrow> cs_call list
     \<Rightarrow> error option \<times> ServiceData \<times> cs_call list" where
  "resourceArmContainerServiceDelete e client d log =
     (case env_parseAzureResourceID e (sd_Id d) of
        Inl err \<Rightarrow> (Some err, d, log)
      | Inr rid \<Rightarrow>
          (let resGroup = rid_ResourceGroup rid;
               name = Path_index rid ''containerServices'';
               (future, err) = csc_Delete client log resGroup name;
               log1 = log @ [CS_Delete resGroup name]
           in if err \<noteq> None then
                (Some (ErrorDeleting name resGroup (the err)), d, log1)
              else
                (let err2 = csc_WaitForCompletionRef client log1;
                     log2 = log1 @ [CS_WaitForCompletionRef]
                 in if err2 \<noteq> None then (err2, d, log2) else (None, d, log2))))"

section \<open>Validation functions of the container service schema\<close>

text \<open>
  \<^verbatim>\<open>validateArmContainerServiceOrchestrationPlatform\<close>: the lookup table
  \<^verbatim>\<open>capacities\<close> is a Go map literal; a missing key reads as \<^verbatim>\<open>false\<close>.
  The functions return the pair \<^verbatim>\<open>(ws, errors)\<close>; \<^verbatim>\<open>ws\<close> is never appended to.
\<close>

definition orchestration_capacities :: "string \<rightharpoonup> bool" where
  "orchestration_capacities =
     [''DCOS'' \<mapsto> True, ''Kubernetes'' \<mapsto> True, ''Swarm'' \<mapsto> True]"

definition map_bool_index :: "('k \<rightharpoonup> bool) \<Rightarrow> 'k \<Rightarrow> bool" where
  "map_bool_index m k = (case m k of None \<Rightarrow> False | Some b \<Rightarrow> b)"

definition validateArmContainerServiceOrchestrationPlatform ::
  "string \<Rightarrow> string \<Rightarrow> string list \<times> error list" where
  "validateArmContainerServiceOrchestrationPlatform v k =
     (let value = v in
      if \<not> map_bool_index orchestration_capacities value
      then ([], [] @ [OrchestrationPlatformInvalid])
      else ([], []))"

definition master_count_capacities :: "int \<rightharpoonup> bool" where
  "master_count_capacities = [1 \<mapsto> True, 3 \<mapsto> True, 5 \<mapsto> True]"

definition validateArmContainerServiceMasterProfileCount ::
  "int \<Rightarrow> string \<Rightarrow> string list \<times> error list" where
  "validateArmContainerServiceMasterProfileCount v k =
     (let value = v in
      if \<not> map_bool_index master_count_capacities value
      then ([], [] @ [MasterProfileCountInvalid])
      else ([], []))"

definition validateArmContainerServiceAgentPoolProfileCount ::
  "int \<Rightarrow> string \<Rightarrow> string list \<times> error list" where
  "validateArmContainerServiceAgentPoolProfileCount v k =
     (let value = v in
      if value > 100 \<or> 0 \<ge> value
      then ([], [] @ [AgentPoolProfileCountInvalid])
      else ([], []))"

section \<open>Notions used in the statements\<close>

text \<open>
  The share and the account name of the last group-level volume that carries the name
  \<open>n\<close> exactly and has an Azure file share: the matching volume of a mount
  named \<open>n\<close>.
\<close>
fun last_matching_share :: "Volume list \<Rightarrow> string \<Rightarrow> (string \<times> string) option" where
  "last_matching_share [] n = None"
| "last_matching_share (cgv # rest) n =
     (case last_matching_share rest n of
        Some r \<Rightarrow> Some r
      | None \<Rightarrow>
          (if vol_Name cgv = Some n then
             (case vol_AzureFile cgv of
                Some azureFile \<Rightarrow>
                  (case (af_ShareName azureFile, af_StorageAccountName azureFile) of
                     (Some s, Some a) \<Rightarrow> Some (s, a)
                   | _ \<Rightarrow> None)
              | None \<Rightarrow> None)
           else None))"

text \<open>
  The pointers \<^verbatim>\<open>flattenContainerVolumes\<close> dereferences without a check.
\<close>

definition volume_pointers_set :: "Volume \<Rightarrow> bool" where
  "volume_pointers_set cgv =
     (vol_Name cgv \<noteq> None \<and>
      (case vol_AzureFile cgv of
         Some azureFile \<Rightarrow> af_ShareName azureFile \<noteq> None \<and> af_StorageAccountName azureFile \<noteq> None
       | None \<Rightarrow> True))"

definition mount_pointers_set :: "VolumeMount \<Rightarrow> bool" where
  "mount_pointers_set vm = (vm_Name vm \<noteq> None \<and> vm_MountPath vm \<noteq> None)"

text \<open>
  The state label the remote reports at poll \<open>j\<close> (counted from 0) of a wait that
  starts with the given log of calls: each poll is one \<^verbatim>\<open>Get\<close>. \<open>None\<close> when the
  read fails or carries no label.
\<close>

definition poll_answer ::
  "ContainerServicesClient \<Rightarrow> string \<Rightarrow> string \<Rightarrow> cs_call list \<Rightarrow> nat \<Rightarrow> string option" where
  "poll_answer client resGroup name log j =
     (case csc_Get client (log @ replicate j (CS_Get resGroup name)) resGroup name of
        (res, None) \<Rightarrow>
          (case cs_Properties res of Some props \<Rightarrow> pr_ProvisioningState props | None \<Rightarrow> None)
      | (res, Some err) \<Rightarrow> None)"

text \<open>
  Flatten after expand for the containers of a group: the three slices that
  \<^verbatim>\<open>expandContainerGroupContainers\<close> builds from the configuration are handed to
  \<^verbatim>\<open>flattenContainerGroupContainers\<close>, with the same configuration as the prior
  one.
\<close>

definition container_group_round_trip :: "container_config list \<Rightarrow> val list option" where
  "container_group_round_trip containersConfig =
     do {
       (containers, containerGroupPorts, containerGroupVolumes) \<leftarrow>
         expandContainerGroupContainers containersConfig;
       flattenContainerGroupContainers containersConfig containers containerGroupPorts
         containerGroupVolumes
     }"











text \<open>
  The existence check of \<^verbatim>\<open>resourceArmContainerGroupCreate\<close> passes: the first read
  succeeds or reports "not found", and carries no identifier.
\<close>

definition group_check_passes ::
  "ContainerGroupsClient \<Rightarrow> GroupData \<Rightarrow> cg_call list \<Rightarrow> bool" where
  "group_check_passes client d log =
     (case cgc_Get client log (gd_resource_group_name d) (gd_name d) of
        (resp, err) \<Rightarrow> (err = None \<or> ResponseWasNotFound (cg_Response resp)) \<and> cg_ID resp = None)"



text \<open>
  The remote object of a container service request: the server assigns the identifier,
  the provisioning state, the fqdn of the master and of the agent pool profiles and the
  storage URI of the diagnostics, and returns the rest as it was sent.
\<close>

definition remote_container_service ::
  "string \<Rightarrow> string \<Rightarrow> string \<Rightarrow> string \<Rightarrow> string option \<Rightarrow> ContainerService \<Rightarrow> ContainerService" where
  "remote_container_service ident state master_fqdn agent_fqdn storage_uri p =
     p\<lparr> cs_Response := Some 200,
        cs_ID := Some ident,
        cs_Properties :=
          map_option (\<lambda>props. props\<lparr>
              pr_ProvisioningState := Some state,
              pr_MasterProfile :=
                map_option (\<lambda>m. m\<lparr> mp_Fqdn := Some master_fqdn \<rparr>) (pr_MasterProfile props),
              pr_AgentPoolProfiles :=
                map_option (map (\<lambda>a. a\<lparr> ap_Fqdn := Some agent_fqdn \<rparr>)) (pr_AgentPoolProfiles props),
              pr_DiagnosticsProfile :=
                map_option (\<lambda>dp. dp\<lparr> dp_VMDiagnostics :=
                    map_option (\<lambda>vm. vm\<lparr> vmd_StorageURI := storage_uri \<rparr>) (dp_VMDiagnostics dp) \<rparr>)
                  (pr_DiagnosticsProfile props) \<rparr>)
            (cs_Properties p) \<rparr>"

section \<open>Sample inputs\<close>

text \<open>
  Collaborators and configurations on which the theorems are instantiated.
\<close>

definition sample_env :: env where
  "sample_env =
     \<lparr> env_parseAzureResourceID =
         (\<lambda>s. Inr \<lparr> rid_ResourceGroup = ''rg'',
                     rid_Path = [(''containerGroups'', ''web''), (''containerServices'', ''svc'')] \<rparr>),
       env_azureRMNormalizeLocation = (\<lambda>s. s),
       env_expandTags = (\<lambda>t. []),
       env_flattenAndSetTags = (\<lambda>attrs t. attrs),
       env_Set = (\<lambda>attrs k v. (AList.update k v attrs, None)),
       env_hashcode_String = (\<lambda>s. int (length s)) \<rparr>"

definition empty_group :: "nat option \<Rightarrow> string option \<Rightarrow> ContainerGroup" where
  "empty_group status ident =
     \<lparr> cg_Response = status, cg_Properties = None, cg_ID = ident, cg_Name = None,
       cg_Location = None, cg_Tags = [] \<rparr>"

definition empty_service :: "nat option \<Rightarrow> string option \<Rightarrow> ContainerService" where
  "empty_service status ident =
     \<lparr> cs_Response = status, cs_Properties = None, cs_ID = ident, cs_Name = None,
       cs_Location = None, cs_Tags = [] \<rparr>"

definition sample_group_data :: GroupData where
  "sample_group_data =
     \<lparr> gd_Id = ''/subscriptions/0/resourceGroups/rg/providers/Microsoft.ContainerInstance/containerGroups/web'',
       gd_name = ''web'', gd_resource_group_name = ''rg'', gd_location = ''westus'',
       gd_ip_address_type = ''Public'', gd_os_type = ''linux'', gd_restart_policy = ''Always'',
       gd_dns_name_label = [], gd_tags = [], gd_image_registry_credential = [],
       gd_container = [], gd_attributes = [] \<rparr>"

definition sample_service_data :: ServiceData where
  "sample_service_data =
     \<lparr> sd_Id = ''/subscriptions/0/resourceGroups/rg/providers/Microsoft.ContainerService/containerServices/svc'',
       sd_IsNewResource = True, sd_Timeout = 3600,
       sd_name = ''svc'', sd_resource_group_name = ''rg'', sd_location = ''westus'',
       sd_orchestration_platform = ''Kubernetes'',
       sd_master_profile = [\<lparr> mpc_count = 1, mpc_dns_prefix = ''x'' \<rparr>],
       sd_linux_profile = [\<lparr> lpc_admin_username = ''admin'', lpc_ssh_key = [\<lparr> sk_key_data = ''ssh-rsa AAAA'' \<rparr>] \<rparr>],
       sd_agent_pool_profile = [\<lparr> apc_name = ''pool'', apc_count = 2, apc_dns_prefix = ''a'', apc_vm_size = ''Standard_F2'' \<rparr>],
       sd_service_principal = [],
       sd_diagnostics_profile = [\<lparr> dpc_enabled = False \<rparr>],
       sd_tags = [], sd_attributes = [] \<rparr>"

text \<open>A remote on which nothing exists: every call is answered "not found".\<close>

definition absent_group_client :: ContainerGroupsClient where
  "absent_group_client =
     \<lparr> cgc_Get = (\<lambda>log rg n. (empty_group (Some 404) None, Some (ClientError ''ResourceNotFound''))),
       cgc_CreateOrUpdate = (\<lambda>log rg n g. (empty_group (Some 404) None, Some (ClientError ''ResourceGroupNotFound''))),
       cgc_Delete = (\<lambda>log rg n. (empty_group (Some 404) None, Some (ClientError ''ResourceNotFound''))) \<rparr>"

definition absent_service_client :: ContainerServicesClient where
  "absent_service_client =
     \<lparr> csc_Get = (\<lambda>log rg n. (empty_service (Some 404) None, Some (ClientError ''ResourceNotFound''))),
       csc_CreateOrUpdate = (\<lambda>log rg n g. Some (ClientError ''ResourceGroupNotFound'')),
       csc_Delete = (\<lambda>log rg n. (Some 404, Some (ClientError ''ResourceNotFound''))),
       csc_WaitForCompletionRef = (\<lambda>log. None) \<rparr>"

definition failing_group_client :: ContainerGroupsClient where
  "failing_group_client =
     \<lparr> cgc_Get = (\<lambda>log rg n. (empty_group (Some 500) None, Some (ClientError ''InternalServerError''))),
       cgc_CreateOrUpdate = (\<lambda>log rg n g. (empty_group (Some 500) None, Some (ClientError ''InternalServerError''))),
       cgc_Delete = (\<lambda>log rg n. (empty_group (Some 500) None, Some (ClientError ''InternalServerError''))) \<rparr>"

definition existing_group_client :: ContainerGroupsClient where
  "existing_group_client =
     \<lparr> cgc_Get = (\<lambda>log rg n. (empty_group (Some 200) (Some ''/existing/web''), None)),
       cgc_CreateOrUpdate = (\<lambda>log rg n g. (empty_group (Some 200) (Some ''/existing/web''), None)),
       cgc_Delete = (\<lambda>log rg n. (empty_group (Some 200) None, None)) \<rparr>"

definition existing_service_client :: ContainerServicesClient where
  "existing_service_client =
     \<lparr> csc_Get = (\<lambda>log rg n. (empty_service (Some 200) (Some ''/existing/svc''), None)),
       csc_CreateOrUpdate = (\<lambda>log rg n g. None),
       csc_Delete = (\<lambda>log rg n. (Some 200, None)),
       csc_WaitForCompletionRef = (\<lambda>log. None) \<rparr>"

text \<open>A remote that rejects every create-or-update request.\<close>

definition rejecting_group_client :: ContainerGroupsClient where
  "rejecting_group_client =
     \<lparr> cgc_Get = (\<lambda>log rg n. (empty_group (Some 404) None, Some (ClientError ''ResourceNotFound''))),
       cgc_CreateOrUpdate = (\<lambda>log rg n g. (empty_group (Some 400) None, Some (ClientError ''InvalidRequest''))),
       cgc_Delete = (\<lambda>log rg n. (empty_group (Some 404) None, Some (ClientError ''ResourceNotFound''))) \<rparr>"

definition rejecting_service_client :: ContainerServicesClient where
  "rejecting_service_client =
     \<lparr> csc_Get = (\<lambda>log rg n. (empty_service (Some 404) None, Some (ClientError ''ResourceNotFound''))),
       csc_CreateOrUpdate = (\<lambda>log rg n g. Some (ClientError ''InvalidRequest'')),
       csc_Delete = (\<lambda>log rg n. (Some 404, Some (ClientError ''ResourceNotFound''))),
       csc_WaitForCompletionRef = (\<lambda>log. None) \<rparr>"

text \<open>A remote that accepts the request and then returns objects without an identifier.\<close>

definition anonymous_group_client :: ContainerGroupsClient where
  "anonymous_group_client =
     \<lparr> cgc_Get = (\<lambda>log rg n. (empty_group (Some 200) None, None)),
       cgc_CreateOrUpdate = (\<lambda>log rg n g. (empty_group (Some 200) None, None)),
       cgc_Delete = (\<lambda>log rg n. (empty_group (Some 200) None, None)) \<rparr>"

definition anonymous_service_client :: ContainerServicesClient where
  "anonymous_service_client =
     \<lparr> csc_Get = (\<lambda>log rg n. (empty_service (Some 200) None, None)),
       csc_CreateOrUpdate = (\<lambda>log rg n g. None),
       csc_Delete = (\<lambda>log rg n. (Some 200, None)),
       csc_WaitForCompletionRef = (\<lambda>log. None) \<rparr>"

text \<open>
  A simulated remote for the container service: it keeps the object of the last
  create-or-update request, assigns an identifier and the fqdn of the master and agent
  pool profiles, and reports the state Creating for the first three reads after the
  request and Succeeded from then on.
\<close>

definition request_of :: "cs_call \<Rightarrow> ContainerService option" where
  "request_of c = (case c of CS_CreateOrUpdate rg n p \<Rightarrow> Some p | _ \<Rightarrow> None)"

definition is_read :: "cs_call \<Rightarrow> bool" where
  "is_read c = (case c of CS_Get rg n \<Rightarrow> True | _ \<Rightarrow> False)"

definition last_request :: "cs_call list \<Rightarrow> ContainerService option" where
  "last_request log = (case List.map_filter request_of log of [] \<Rightarrow> None | ps \<Rightarrow> Some (last ps))"

definition reads_since_request :: "cs_call list \<Rightarrow> nat" where
  "reads_since_request log = length (takeWhile is_read (rev log))"

definition server_assigns :: "string \<Rightarrow> ContainerService \<Rightarrow> ContainerService" where
  "server_assigns state p =
     remote_container_service
       ''/subscriptions/0/resourceGroups/rg/providers/Microsoft.ContainerService/containerServices/a''
       state ''xmgmt.westus.cloudapp.azure.com'' ''xagents.westus.cloudapp.azure.com'' None p"

definition simulated_service_client :: ContainerServicesClient where
  "simulated_service_client =
     \<lparr> csc_Get = (\<lambda>log rg n.
         (case last_request log of
            None \<Rightarrow> (empty_service (Some 404) None, Some (ClientError ''ResourceNotFound''))
          | Some p \<Rightarrow>
              (server_assigns (if reads_since_request log < 3 then ''Creating'' else ''Succeeded'') p,
               None))),
       csc_CreateOrUpdate = (\<lambda>log rg n p. None),
       csc_Delete = (\<lambda>log rg n. (Some 200, None)),
       csc_WaitForCompletionRef = (\<lambda>log. None) \<rparr>"

definition scenario_env :: env where
  "scenario_env = sample_env\<lparr> env_parseAzureResourceID :=
      (\<lambda>s. Inr \<lparr> rid_ResourceGroup = ''rg'', rid_Path = [(''containerServices'', ''a'')] \<rparr>) \<rparr>"

definition scenario_data :: ServiceData where
  "scenario_data = sample_service_data\<lparr> sd_Id := [], sd_name := ''a'' \<rparr>"

definition pending_service_client :: ContainerServicesClient where
  "pending_service_client =
     \<lparr> csc_Get = (\<lambda>log rg n. (server_assigns ''Updating'' (empty_service None None\<lparr> cs_Properties := Some
           \<lparr> pr_ProvisioningState = None, pr_OrchestratorProfile = None,
             pr_ServicePrincipalProfile = None, pr_MasterProfile = None,
             pr_AgentPoolProfiles = None, pr_LinuxProfile = None,
             pr_DiagnosticsProfile = None \<rparr> \<rparr>), None)),
       csc_CreateOrUpdate = (\<lambda>log rg n p. None),
       csc_Delete = (\<lambda>log rg n. (Some 200, None)),
       csc_WaitForCompletionRef = (\<lambda>log. None) \<rparr>"

definition failing_service_client :: ContainerServicesClient where
  "failing_service_client =
     \<lparr> csc_Get = (\<lambda>log rg n.
         (server_assigns (if length log < 2 then ''Creating'' else ''Failed'')
            (empty_service None None\<lparr> cs_Properties := Some
           \<lparr> pr_ProvisioningState = None, pr_OrchestratorProfile = None,
             pr_ServicePrincipalProfile = None, pr_MasterProfile = None,
             pr_AgentPoolProfiles = None, pr_LinuxProfile = None,
             pr_DiagnosticsProfile = None \<rparr> \<rparr>), None)),
       csc_CreateOrUpdate = (\<lambda>log rg n p. None),
       csc_Delete = (\<lambda>log rg n. (Some 200, None)),
       csc_WaitForCompletionRef = (\<lambda>log. None) \<rparr>"

definition scenario_log :: "cs_call list" where
  "scenario_log =
     [CS_Get ''rg'' ''a'',
      CS_CreateOrUpdate ''rg'' ''a'' (the (expand_container_service scenario_env scenario_data)),
      CS_Get ''rg'' ''a'']"


section \<open>Theorems\<close>

text \<open>
  C9. Validation bounds: the master profile count validator reports an error exactly
  when the value is not 1, 3 or 5; the agent pool count validator exactly when the
  value is at most 0 or above 100; the orchestration platform validator exactly when
  the string is none of DCOS, Kubernetes, Swarm (compared exactly, case included).
\<close>

theorem C9_validation_bounds:
  "(snd (validateArmContainerServiceMasterProfileCount v k) \<noteq> []) = (v \<notin> {1, 3, 5})
   \<and> (snd (validateArmContainerServiceAgentPoolProfileCount v k) \<noteq> []) = (v \<le> 0 \<or> 100 < v)
   \<and> (snd (validateArmContainerServiceOrchestrationPlatform s k) \<noteq> [])
       = (s \<notin> {''DCOS'', ''Kubernetes'', ''Swarm''})"
  by (auto simp: validateArmContainerServiceMasterProfileCount_def
      validateArmContainerServiceAgentPoolProfileCount_def
      validateArmContainerServiceOrchestrationPlatform_def
      master_count_capacities_def orchestration_capacities_def map_bool_index_def)

subsection \<open>Volumes\<close>

lemma group_volume_loop_result:
  "list_all volume_pointers_set vols \<Longrightarrow>
   \<exists>kvs'. group_volume_loop vols n kvs = Some kvs'
     \<and> map_of kvs' ''share_name'' =
         (case last_matching_share vols n of
            Some r \<Rightarrow> Some (VString (fst r)) | None \<Rightarrow> map_of kvs ''share_name'')
     \<and> map_of kvs' ''storage_account_name'' =
         (case last_matching_share vols n of
            Some r \<Rightarrow> Some (VString (snd r)) | None \<Rightarrow> map_of kvs ''storage_account_name'')
     \<and> (\<forall>k. k \<noteq> ''share_name'' \<and> k \<noteq> ''storage_account_name'' \<longrightarrow> map_of kvs' k = map_of kvs k)"
proof (induction vols arbitrary: kvs)
  case Nil
  then show ?case by simp
next
  case (Cons cgv rest)
  from Cons.prems have wf: "volume_pointers_set cgv" and rest: "list_all volume_pointers_set rest"
    by simp_all
  from wf obtain cn where cn: "vol_Name cgv = Some cn"
    by (auto simp: volume_pointers_set_def)
  show ?case
  proof (cases "cn = n \<and> vol_AzureFile cgv \<noteq> None")
    case True
    then obtain af s a where af: "vol_AzureFile cgv = Some af" "af_ShareName af = Some s"
        "af_StorageAccountName af = Some a"
      using wf by (auto simp: volume_pointers_set_def)
    let ?k1 = "AList.update ''storage_account_name'' (VString a)
                 (AList.update ''share_name'' (VString s) kvs)"
    from Cons.IH[OF rest, of ?k1] obtain kvs' where
      r: "group_volume_loop rest n ?k1 = Some kvs'"
       "map_of kvs' ''share_name'' =
         (case last_matching_share rest n of
            Some r \<Rightarrow> Some (VString (fst r)) | None \<Rightarrow> map_of ?k1 ''share_name'')"
       "map_of kvs' ''storage_account_name'' =
         (case last_matching_share rest n of
            Some r \<Rightarrow> Some (VString (snd r)) | None \<Rightarrow> map_of ?k1 ''storage_account_name'')"
       "\<forall>k. k \<noteq> ''share_name'' \<and> k \<noteq> ''storage_account_name'' \<longrightarrow> map_of kvs' k = map_of ?k1 k"
      by blast
    show ?thesis
      using True cn af r by (simp add: update_conv' split: option.splits)
  next
    case False
    from Cons.IH[OF rest, of kvs] obtain kvs' where
      r: "group_volume_loop rest n kvs = Some kvs'"
       "map_of kvs' ''share_name'' =
         (case last_matching_share rest n of
            Some r \<Rightarrow> Some (VString (fst r)) | None \<Rightarrow> map_of kvs ''share_name'')"
       "map_of kvs' ''storage_account_name'' =
         (case last_matching_share rest n of
            Some r \<Rightarrow> Some (VString (snd r)) | None \<Rightarrow> map_of kvs ''storage_account_name'')"
       "\<forall>k. k \<noteq> ''share_name'' \<and> k \<noteq> ''storage_account_name'' \<longrightarrow> map_of kvs' k = map_of kvs k"
      by blast
    show ?thesis
      using False cn r by (auto simp: update_conv' split: option.splits)
  qed
qed

lemma config_volume_loop_other:
  "k \<noteq> ''storage_account_key'' \<Longrightarrow> map_of (config_volume_loop cfg n kvs) k = map_of kvs k"
  by (induction cfg arbitrary: kvs) (simp_all add: update_conv')

lemma flatten_volume_mount_result:
  assumes "list_all volume_pointers_set vols" and "mount_pointers_set vm"
  shows "\<exists>kvs. flatten_volume_mount (Some vols) cfg vm = Some (VMap kvs)
     \<and> map_of kvs ''name'' = map_option VString (vm_Name vm)
     \<and> map_of kvs ''mount_path'' = map_option VString (vm_MountPath vm)
     \<and> map_of kvs ''read_only'' = map_option VBool (vm_ReadOnly vm)
     \<and> map_of kvs ''share_name'' =
         (case vm_Name vm of None \<Rightarrow> None
          | Some n \<Rightarrow> map_option (VString \<circ> fst) (last_matching_share vols n))
     \<and> map_of kvs ''storage_account_name'' =
         (case vm_Name vm of None \<Rightarrow> None
          | Some n \<Rightarrow> map_option (VString \<circ> snd) (last_matching_share vols n))"
proof -
  from assms(2) obtain n p where np: "vm_Name vm = Some n" "vm_MountPath vm = Some p"
    by (auto simp: mount_pointers_set_def)
  let ?k1 = "(case vm_ReadOnly vm of
                Some readOnly \<Rightarrow> AList.update ''read_only'' (VBool readOnly)
                   (AList.update ''mount_path'' (VString p) (AList.update ''name'' (VString n) []))
              | None \<Rightarrow> AList.update ''mount_path'' (VString p) (AList.update ''name'' (VString n) []))"
  from group_volume_loop_result[OF assms(1), of n ?k1] obtain kvs' where
    r: "group_volume_loop vols n ?k1 = Some kvs'"
       "map_of kvs' ''share_name'' =
         (case last_matching_share vols n of
            Some r \<Rightarrow> Some (VString (fst r)) | None \<Rightarrow> map_of ?k1 ''share_name'')"
       "map_of kvs' ''storage_account_name'' =
         (case last_matching_share vols n of
            Some r \<Rightarrow> Some (VString (snd r)) | None \<Rightarrow> map_of ?k1 ''storage_account_name'')"
       "\<forall>k. k \<noteq> ''share_name'' \<and> k \<noteq> ''storage_account_name'' \<longrightarrow> map_of kvs' k = map_of ?k1 k"
    by blast
  have o: "map_of kvs' ''name'' = map_of ?k1 ''name''" "map_of kvs' ''mount_path'' = map_of ?k1 ''mount_path''"
     "map_of kvs' ''read_only'' = map_of ?k1 ''read_only''"
    using r(4) by simp_all
  show ?thesis
    using np r(1,2,3) o
    by (cases cfg; cases "vm_ReadOnly vm"; cases "last_matching_share vols n")
       (simp_all add: flatten_volume_mount_def config_volume_loop_other update_conv')
qed


lemma flatten_volumes_loop_result:
  assumes "list_all volume_pointers_set vols" and "list_all mount_pointers_set mounts"
  shows "\<exists>out. flatten_volumes_loop (Some vols) cfg mounts = Some out
     \<and> length out = length mounts
     \<and> (\<forall>i<length mounts. flatten_volume_mount (Some vols) cfg (mounts ! i) = Some (out ! i))"
  using assms(2)
proof (induction mounts)
  case Nil
  then show ?case by simp
next
  case (Cons vm rest)
  from Cons.prems have "mount_pointers_set vm" and rest: "list_all mount_pointers_set rest"
    by simp_all
  with flatten_volume_mount_result[OF assms(1), of vm cfg] obtain kvs where
    kvs: "flatten_volume_mount (Some vols) cfg vm = Some (VMap kvs)" by blast
  from Cons.IH[OF rest] obtain out where
    out: "flatten_volumes_loop (Some vols) cfg rest = Some out" "length out = length rest"
      "\<forall>i<length rest. flatten_volume_mount (Some vols) cfg (rest ! i) = Some (out ! i)"
    by blast
  show ?case
    using kvs out by (auto simp: nth_Cons split: nat.splits)
qed

text \<open>
  C4 (as amended). For mounts and group-level volumes whose names are set,
  \<^verbatim>\<open>flattenContainerVolumes\<close> returns without a panic one entry per volume mount,
  in order; the entry carries the mount's name, mount path and read-only flag, and it
  carries \<open>share_name\<close> and \<open>storage_account_name\<close> exactly when a group-level
  volume has the very same name and a file share, copied from the last such volume.
  A mount without a matching volume keeps its entry, with neither of the two keys.
\<close>

theorem C4_amended:
  assumes "list_all volume_pointers_set vols" and "list_all mount_pointers_set mounts"
  shows "\<exists>out. flattenContainerVolumes (Some mounts) (Some vols) cfg = Some out
     \<and> length out = length mounts
     \<and> (\<forall>i<length mounts. \<exists>kvs n. out ! i = VMap kvs
           \<and> vm_Name (mounts ! i) = Some n
           \<and> map_of kvs ''name'' = Some (VString n)
           \<and> map_of kvs ''mount_path'' = map_option VString (vm_MountPath (mounts ! i))
           \<and> map_of kvs ''read_only'' = map_option VBool (vm_ReadOnly (mounts ! i))
           \<and> map_of kvs ''share_name'' = map_option (VString \<circ> fst) (last_matching_share vols n)
           \<and> map_of kvs ''storage_account_name'' =
                map_option (VString \<circ> snd) (last_matching_share vols n))"
proof -
  from flatten_volumes_loop_result[OF assms, of cfg] obtain out where
    out: "flatten_volumes_loop (Some vols) cfg mounts = Some out" "length out = length mounts"
      "\<forall>i<length mounts. flatten_volume_mount (Some vols) cfg (mounts ! i) = Some (out ! i)"
    by blast
  have "\<exists>kvs n. out ! i = VMap kvs
           \<and> vm_Name (mounts ! i) = Some n
           \<and> map_of kvs ''name'' = Some (VString n)
           \<and> map_of kvs ''mount_path'' = map_option VString (vm_MountPath (mounts ! i))
           \<and> map_of kvs ''read_only'' = map_option VBool (vm_ReadOnly (mounts ! i))
           \<and> map_of kvs ''share_name'' = map_option (VString \<circ> fst) (last_matching_share vols n)
           \<and> map_of kvs ''storage_account_name'' =
                map_option (VString \<circ> snd) (last_matching_share vols n)"
    if i: "i < length mounts" for i
  proof -
    from i assms(2) have m: "mount_pointers_set (mounts ! i)"
      by (simp add: list_all_length)
    then obtain n where n: "vm_Name (mounts ! i) = Some n"
      by (auto simp: mount_pointers_set_def)
    from flatten_volume_mount_result[OF assms(1) m, of cfg] out(3) i n
    show ?thesis by auto
  qed
  with out(1,2) show ?thesis
    by (simp add: flattenContainerVolumes_def)
qed

lemma last_matching_share_None:
  "list_all volume_pointers_set vols \<Longrightarrow>
   (last_matching_share vols n = None) =
     (\<not> (\<exists>cgv \<in> set vols. vol_Name cgv = Some n \<and> vol_AzureFile cgv \<noteq> None))"
  by (induction vols) (auto simp: volume_pointers_set_def split: option.splits)

lemma last_matching_share_Some:
  "last_matching_share vols n = Some (s, a) \<Longrightarrow>
   \<exists>cgv \<in> set vols. \<exists>azureFile. vol_Name cgv = Some n \<and> vol_AzureFile cgv = Some azureFile
      \<and> af_ShareName azureFile = Some s \<and> af_StorageAccountName azureFile = Some a"
  by (induction vols) (auto split: option.splits if_splits)

text \<open>
  The claim as first stated fails: a mount named \<open>a\<close> beside a single group-level
  volume named \<open>b\<close> still yields an output entry.
\<close>

theorem C4_counterexample:
  "flattenContainerVolumes
     (Some [\<lparr> vm_Name = Some ''a'', vm_MountPath = Some ''/data'', vm_ReadOnly = Some False \<rparr>])
     (Some [\<lparr> vol_Name = Some ''b'', vol_AzureFile = Some
              \<lparr> af_ShareName = Some ''share'', af_ReadOnly = Some False,
                af_StorageAccountName = Some ''acct'', af_StorageAccountKey = None \<rparr> \<rparr>])
     None
   = Some [VMap [(''name'', VString ''a''), (''mount_path'', VString ''/data''),
                 (''read_only'', VBool False)]]"
  by (simp add: flattenContainerVolumes_def flatten_volume_mount_def)

theorem C4_witness:
  "\<exists>out kvs. flattenContainerVolumes
     (Some [\<lparr> vm_Name = Some ''a'', vm_MountPath = Some ''/data'', vm_ReadOnly = Some False \<rparr>,
            \<lparr> vm_Name = Some ''b'', vm_MountPath = Some ''/logs'', vm_ReadOnly = None \<rparr>])
     (Some [\<lparr> vol_Name = Some ''b'', vol_AzureFile = Some
              \<lparr> af_ShareName = Some ''share'', af_ReadOnly = Some False,
                af_StorageAccountName = Some ''acct'', af_StorageAccountKey = None \<rparr> \<rparr>])
     None = Some out
   \<and> length out = 2
   \<and> out ! 1 = VMap kvs
   \<and> map_of kvs ''name'' = Some (VString ''b'')
   \<and> map_of kvs ''share_name'' = Some (VString ''share'')
   \<and> map_of kvs ''storage_account_name'' = Some (VString ''acct'')"
  using C4_amended [of
     "[\<lparr> vol_Name = Some ''b'', vol_AzureFile = Some
              \<lparr> af_ShareName = Some ''share'', af_ReadOnly = Some False,
                af_StorageAccountName = Some ''acct'', af_StorageAccountKey = None \<rparr> \<rparr>]"
     "[\<lparr> vm_Name = Some ''a'', vm_MountPath = Some ''/data'', vm_ReadOnly = Some False \<rparr>,
            \<lparr> vm_Name = Some ''b'', vm_MountPath = Some ''/logs'', vm_ReadOnly = None \<rparr>]" None]
  by (simp add: volume_pointers_set_def mount_pointers_set_def) (force)

subsection \<open>Image registry credentials\<close>

lemma flatten_credentials_loop_length:
  "length (flatten_credentials_loop configsOld k creds) = length creds"
  by (induction creds arbitrary: k) simp_all

lemma flatten_credentials_loop_nth:
  "i < length creds \<Longrightarrow>
   flatten_credentials_loop configsOld k creds ! i = flatten_credential configsOld (k + i) (creds ! i)"
proof (induction creds arbitrary: k i)
  case Nil
  then show ?case by simp
next
  case (Cons c rest)
  then show ?case by (cases i) simp_all
qed

lemma flatten_credential_password:
  "\<exists>credConfig. flatten_credential configsOld i cred = VMap credConfig
     \<and> map_of credConfig ''password'' =
         (if i < length configsOld \<and> irc_Server cred = Some (cred_server (configsOld ! i))
             \<and> cred_password (configsOld ! i) \<noteq> []
          then Some (VString (cred_password (configsOld ! i))) else None)"
  by (simp add: flatten_credential_def GetOk_password_def Let_def update_conv'
      split: option.splits)

text \<open>
  C10. \<^verbatim>\<open>flattenContainerImageRegistryCredentials\<close> returns one entry per remote
  credential; entry \<open>i\<close> has the key \<open>password\<close> only when the prior configuration
  has an entry at index \<open>i\<close> whose server equals the remote credential's server,
  and the value is then the prior password (a prior password that is the empty string
  counts as unset); in every other case the key is absent.
\<close>

theorem C10_password_echo:
  "\<exists>output. flattenContainerImageRegistryCredentials configsOld (Some creds) = Some output
     \<and> length output = length creds
     \<and> (\<forall>i<length creds. \<exists>credConfig. output ! i = VMap credConfig
           \<and> map_of credConfig ''password'' =
               (if i < length configsOld \<and> irc_Server (creds ! i) = Some (cred_server (configsOld ! i))
                   \<and> cred_password (configsOld ! i) \<noteq> []
                then Some (VString (cred_password (configsOld ! i))) else None))"
  using flatten_credential_password
  by (simp add: flattenContainerImageRegistryCredentials_def flatten_credentials_loop_length
      flatten_credentials_loop_nth)

theorem C10_witness:
  "\<exists>output c0 c1. flattenContainerImageRegistryCredentials
      [\<lparr> cred_server = ''reg.example.com'', cred_username = ''u'', cred_password = ''pw'' \<rparr>]
      (Some [\<lparr> irc_Server = Some ''reg.example.com'', irc_Username = Some ''u'', irc_Password = None \<rparr>,
             \<lparr> irc_Server = Some ''other.example.com'', irc_Username = Some ''w'', irc_Password = None \<rparr>])
      = Some output
    \<and> output ! 0 = VMap c0 \<and> map_of c0 ''password'' = Some (VString ''pw'')
    \<and> output ! 1 = VMap c1 \<and> map_of c1 ''password'' = None"
proof -
  let ?old = "[\<lparr> cred_server = ''reg.example.com'', cred_username = ''u'', cred_password = ''pw'' \<rparr>]"
  let ?creds = "[\<lparr> irc_Server = Some ''reg.example.com'', irc_Username = Some ''u'', irc_Password = None \<rparr>,
             \<lparr> irc_Server = Some ''other.example.com'', irc_Username = Some ''w'', irc_Password = None \<rparr>]"
  from C10_password_echo [of ?old ?creds] obtain out where
    o: "flattenContainerImageRegistryCredentials ?old (Some ?creds) = Some out"
    and a: "\<forall>i<length ?creds. \<exists>credConfig. out ! i = VMap credConfig
           \<and> map_of credConfig ''password'' =
               (if i < length ?old \<and> irc_Server (?creds ! i) = Some (cred_server (?old ! i))
                   \<and> cred_password (?old ! i) \<noteq> []
                then Some (VString (cred_password (?old ! i))) else None)"
    by blast
  from a[rule_format, of 0] obtain c0 where
    c0: "out ! 0 = VMap c0" "map_of c0 ''password'' = Some (VString ''pw'')" by auto
  from a[rule_format, of 1] obtain c1 where
    c1: "out ! 1 = VMap c1" "map_of c1 ''password'' = None" by auto
  from o c0 c1 show ?thesis by blast
qed

subsection \<open>Create, read and delete\<close>

lemma group_delete_not_found:
  assumes "env_parseAzureResourceID e (gd_Id d) = Inr rid"
    and "cgc_Delete client log (rid_ResourceGroup rid) (Path_index rid ''containerGroups'') = (resp, err)"
    and "err = None \<or> ResponseWasNotFound (cg_Response resp)"
  shows "fst (resourceArmContainerGroupDelete e client d log) = None"
  using assms by (auto simp: resourceArmContainerGroupDelete_def Let_def)

lemma service_delete_error:
  assumes "env_parseAzureResourceID e (sd_Id d) = Inr rid"
    and "csc_Delete client log (rid_ResourceGroup rid) (Path_index rid ''containerServices'') = (status, Some err)"
  shows "fst (resourceArmContainerServiceDelete e client d log) =
           Some (ErrorDeleting (Path_index rid ''containerServices'') (rid_ResourceGroup rid) err)"
  using assms by (simp add: resourceArmContainerServiceDelete_def Let_def)

text \<open>
  C2. Delete on a remote object that is already absent: the client answers "not found".
  The container group Delete returns no error; the container service Delete, which has
  no such check, returns the error "Error deleting Container Service".
\<close>

theorem C2_service_delete_not_found:
  "fst (resourceArmContainerGroupDelete sample_env absent_group_client sample_group_data []) = None
   \<and> ResponseWasNotFound (fst (csc_Delete absent_service_client [] ''rg'' ''svc''))
   \<and> fst (resourceArmContainerServiceDelete sample_env absent_service_client sample_service_data [])
       = Some (ErrorDeleting ''svc'' ''rg'' (ClientError ''ResourceNotFound''))"
  by (simp add: resourceArmContainerGroupDelete_def resourceArmContainerServiceDelete_def
      sample_env_def absent_group_client_def absent_service_client_def sample_group_data_def
      sample_service_data_def empty_group_def ResponseWasNotFound_def Path_index_def Let_def)

text \<open>
  C5. Read, once the identifier is parsed, on a remote read that fails: when the
  response reports "not found", Read returns no error and clears the stored identifier;
  any other failure is returned as an error (as it is for the container group, wrapped
  in "Error making Read request" for the container service), the identifier kept.
\<close>

theorem C5_read_not_found:
  "(env_parseAzureResourceID e (gd_Id gd) = Inr grid
      \<and> cgc_Get gclient glog (rid_ResourceGroup grid) (Path_index grid ''containerGroups'')
           = (gresp, Some gerr)
    \<longrightarrow> resourceArmContainerGroupRead e gclient gd glog =
          Some (if ResponseWasNotFound (cg_Response gresp)
                then (None, gd\<lparr> gd_Id := [] \<rparr>,
                      glog @ [CG_Get (rid_ResourceGroup grid) (Path_index grid ''containerGroups'')])
                else (Some gerr, gd,
                      glog @ [CG_Get (rid_ResourceGroup grid) (Path_index grid ''containerGroups'')])))
   \<and> (env_parseAzureResourceID e (sd_Id sd) = Inr srid
      \<and> csc_Get sclient slog (rid_ResourceGroup srid) (Path_index srid ''containerServices'')
           = (sresp, Some serr)
    \<longrightarrow> resourceArmContainerServiceRead e sclient sd slog =
          Some (if ResponseWasNotFound (cs_Response sresp)
                then (None, sd\<lparr> sd_Id := [] \<rparr>,
                      slog @ [CS_Get (rid_ResourceGroup srid) (Path_index srid ''containerServices'')])
                else (Some (ErrorMakingRead (Path_index srid ''containerServices'') serr), sd,
                      slog @ [CS_Get (rid_ResourceGroup srid) (Path_index srid ''containerServices'')])))"
  by (simp add: resourceArmContainerGroupRead_def resourceArmContainerServiceRead_def Let_def)

theorem C5_witness:
  "resourceArmContainerGroupRead sample_env absent_group_client sample_group_data [] =
     Some (None, sample_group_data\<lparr> gd_Id := [] \<rparr>, [CG_Get ''rg'' ''web''])
   \<and> resourceArmContainerServiceRead sample_env absent_service_client sample_service_data [] =
     Some (None, sample_service_data\<lparr> sd_Id := [] \<rparr>, [CS_Get ''rg'' ''svc''])
   \<and> resourceArmContainerGroupRead sample_env failing_group_client sample_group_data [] =
     Some (Some (ClientError ''InternalServerError''), sample_group_data, [CG_Get ''rg'' ''web''])"
  using C5_read_not_found [of sample_env sample_group_data
      "\<lparr> rid_ResourceGroup = ''rg'',
         rid_Path = [(''containerGroups'', ''web''), (''containerServices'', ''svc'')] \<rparr>"
      absent_group_client "[]" "empty_group (Some 404) None" "ClientError ''ResourceNotFound''"
      sample_service_data
      "\<lparr> rid_ResourceGroup = ''rg'',
         rid_Path = [(''containerGroups'', ''web''), (''containerServices'', ''svc'')] \<rparr>"
      absent_service_client "[]" "empty_service (Some 404) None" "ClientError ''ResourceNotFound''"]
    C5_read_not_found [of sample_env sample_group_data
      "\<lparr> rid_ResourceGroup = ''rg'',
         rid_Path = [(''containerGroups'', ''web''), (''containerServices'', ''svc'')] \<rparr>"
      failing_group_client "[]" "empty_group (Some 500) None" "ClientError ''InternalServerError''"
      sample_service_data
      "\<lparr> rid_ResourceGroup = ''rg'',
         rid_Path = [(''containerGroups'', ''web''), (''containerServices'', ''svc'')] \<rparr>"
      absent_service_client "[]" "empty_service (Some 404) None" "ClientError ''ResourceNotFound''"]
  by (simp add: sample_env_def absent_group_client_def absent_service_client_def
      failing_group_client_def empty_group_def empty_service_def ResponseWasNotFound_def
      Path_index_def)

text \<open>
  C6. Create first reads the remote API for an object of the same name and resource
  group (the container service does so for a new resource). When that read reports an
  object with an identifier, Create returns the conflict error of
  \<^verbatim>\<open>tf.ImportAsExistsError\<close> with that identifier; the log then holds the read alone,
  so no create-or-update call was issued, and \<^verbatim>\<open>d\<close> is unchanged.
\<close>

theorem C6_create_existing:
  "(cgc_Get gclient glog (gd_resource_group_name gd) (gd_name gd) = (gresp, gerr)
      \<and> (gerr = None \<or> ResponseWasNotFound (cg_Response gresp))
      \<and> cg_ID gresp = Some gid
    \<longrightarrow> resourceArmContainerGroupCreate e gclient gd glog =
          Some (Some (ImportAsExistsError ''azurerm_container_group'' gid), gd,
                glog @ [CG_Get (gd_resource_group_name gd) (gd_name gd)]))
   \<and> (sd_IsNewResource sd
      \<and> csc_Get sclient slog (sd_resource_group_name sd) (sd_name sd) = (sresp, serr)
      \<and> (serr = None \<or> ResponseWasNotFound (cs_Response sresp))
      \<and> cs_ID sresp = Some sid
    \<longrightarrow> resourceArmContainerServiceCreateUpdate e sclient sd slog =
          Some (Some (ImportAsExistsError ''azurerm_container_service'' sid), sd,
                slog @ [CS_Get (sd_resource_group_name sd) (sd_name sd)]))"
  by (auto simp: resourceArmContainerGroupCreate_def resourceArmContainerServiceCreateUpdate_def
      container_service_existence_check_def Let_def)

theorem C6_witness:
  "resourceArmContainerGroupCreate sample_env existing_group_client sample_group_data [] =
     Some (Some (ImportAsExistsError ''azurerm_container_group'' ''/existing/web''),
           sample_group_data, [CG_Get ''rg'' ''web''])
   \<and> resourceArmContainerServiceCreateUpdate sample_env existing_service_client sample_service_data [] =
     Some (Some (ImportAsExistsError ''azurerm_container_service'' ''/existing/svc''),
           sample_service_data, [CS_Get ''rg'' ''svc''])"
  using C6_create_existing [where gclient = existing_group_client and glog = "[]"
      and gd = sample_group_data and gresp = "empty_group (Some 200) (Some ''/existing/web'')"
      and gerr = None and gid = "''/existing/web''" and sd = sample_service_data
      and sclient = existing_service_client and slog = "[]"
      and sresp = "empty_service (Some 200) (Some ''/existing/svc'')" and serr = None
      and sid = "''/existing/svc''" and e = sample_env]
  by (simp add: existing_group_client_def existing_service_client_def sample_group_data_def
      sample_service_data_def empty_group_def empty_service_def)

text \<open>
  C7. Create, once the existence check has passed and the request is built: an error of
  the create-or-update call is returned as it is; and when the read after a successful
  create-or-update yields an object without identifier, Create returns the error
  "Cannot read ... ID" and \<^verbatim>\<open>d\<close>, its identifier included, is unchanged.
\<close>

theorem C7_create_failures:
  "(group_check_passes gclient gd glog
      \<and> expand_container_group e gd = Some containerGroup
      \<and> glog_checked = glog @ [CG_Get (gd_resource_group_name gd) (gd_name gd)]
      \<and> glog_sent = glog_checked @ [CG_CreateOrUpdate (gd_resource_group_name gd) (gd_name gd) containerGroup]
      \<and> glog_reread = glog_sent @ [CG_Get (gd_resource_group_name gd) (gd_name gd)]
    \<longrightarrow>
      (\<forall>r err. cgc_CreateOrUpdate gclient glog_checked (gd_resource_group_name gd) (gd_name gd) containerGroup
                  = (r, Some err)
         \<longrightarrow> resourceArmContainerGroupCreate e gclient gd glog = Some (Some err, gd, glog_sent))
      \<and> (\<forall>r read. cgc_CreateOrUpdate gclient glog_checked (gd_resource_group_name gd) (gd_name gd) containerGroup
                  = (r, None)
            \<and> cgc_Get gclient glog_sent (gd_resource_group_name gd) (gd_name gd) = (read, None)
            \<and> cg_ID read = None
         \<longrightarrow> resourceArmContainerGroupCreate e gclient gd glog =
               Some (Some (CannotReadID ''container group'' (gd_name gd) (gd_resource_group_name gd)),
                     gd, glog_reread)))
   \<and> (container_service_existence_check sclient sd slog = (None, slog_checked)
      \<and> expand_container_service e sd = Some parameters
      \<and> slog_sent = slog_checked @ [CS_CreateOrUpdate (sd_resource_group_name sd) (sd_name sd) parameters]
      \<and> slog_reread = slog_sent @ [CS_Get (sd_resource_group_name sd) (sd_name sd)]
    \<longrightarrow>
      (\<forall>err. csc_CreateOrUpdate sclient slog_checked (sd_resource_group_name sd) (sd_name sd) parameters
                  = Some err
         \<longrightarrow> resourceArmContainerServiceCreateUpdate e sclient sd slog = Some (Some err, sd, slog_sent))
      \<and> (\<forall>read. csc_CreateOrUpdate sclient slog_checked (sd_resource_group_name sd) (sd_name sd) parameters
                  = None
            \<and> csc_Get sclient slog_sent (sd_resource_group_name sd) (sd_name sd) = (read, None)
            \<and> cs_ID read = None
         \<longrightarrow> resourceArmContainerServiceCreateUpdate e sclient sd slog =
               Some (Some (CannotReadID ''Container Service'' (sd_name sd) (sd_resource_group_name sd)),
                     sd, slog_reread)))"
  by (auto simp: resourceArmContainerGroupCreate_def resourceArmContainerServiceCreateUpdate_def
      group_check_passes_def Let_def split: prod.splits)

theorem C7_witness:
  "map_option fst (resourceArmContainerGroupCreate sample_env rejecting_group_client sample_group_data [])
     = Some (Some (ClientError ''InvalidRequest''))
   \<and> map_option (gd_Id \<circ> fst \<circ> snd)
        (resourceArmContainerGroupCreate sample_env anonymous_group_client sample_group_data [])
     = Some (gd_Id sample_group_data)
   \<and> map_option fst (resourceArmContainerGroupCreate sample_env anonymous_group_client sample_group_data [])
     = Some (Some (CannotReadID ''container group'' ''web'' ''rg''))
   \<and> map_option fst
        (resourceArmContainerServiceCreateUpdate sample_env rejecting_service_client sample_service_data [])
     = Some (Some (ClientError ''InvalidRequest''))
   \<and> map_option fst
        (resourceArmContainerServiceCreateUpdate sample_env anonymous_service_client sample_service_data [])
     = Some (Some (CannotReadID ''Container Service'' ''svc'' ''rg''))"
proof -
  let ?cg = "the (expand_container_group sample_env sample_group_data)"
  let ?cs = "the (expand_container_service sample_env sample_service_data)"
  have g: "expand_container_group sample_env sample_group_data = Some ?cg"
    by (simp add: expand_container_group_def expandContainerGroupContainers_def sample_env_def
        sample_group_data_def Let_def)
  have s: "expand_container_service sample_env sample_service_data = Some ?cs"
    by (simp add: expand_container_service_def sample_env_def sample_service_data_def Let_def
        expandAzureRmContainerServiceMasterProfile_def expandAzureRmContainerServiceLinuxProfile_def
        expandAzureRmContainerServiceAgentProfiles_def expandAzureRmContainerServiceDiagnostics_def
        expandAzureRmContainerServiceServicePrincipal_def index0_def)
  have names: "gd_resource_group_name sample_group_data = ''rg''" "gd_name sample_group_data = ''web''"
      "sd_resource_group_name sample_service_data = ''rg''" "sd_name sample_service_data = ''svc''"
      "sd_IsNewResource sample_service_data"
    by (simp_all add: sample_group_data_def sample_service_data_def)
  note r = C7_create_failures [where e = sample_env and gd = sample_group_data
      and gclient = rejecting_group_client and glog = "[]" and containerGroup = ?cg
      and glog_checked = "[CG_Get ''rg'' ''web'']"
      and glog_sent = "[CG_Get ''rg'' ''web'', CG_CreateOrUpdate ''rg'' ''web'' ?cg]"
      and glog_reread = "[CG_Get ''rg'' ''web'', CG_CreateOrUpdate ''rg'' ''web'' ?cg, CG_Get ''rg'' ''web'']"
      and sd = sample_service_data and sclient = rejecting_service_client and slog = "[]"
      and parameters = ?cs and slog_checked = "[CS_Get ''rg'' ''svc'']"
      and slog_sent = "[CS_Get ''rg'' ''svc'', CS_CreateOrUpdate ''rg'' ''svc'' ?cs]"
      and slog_reread = "[CS_Get ''rg'' ''svc'', CS_CreateOrUpdate ''rg'' ''svc'' ?cs, CS_Get ''rg'' ''svc'']"]
  note a = C7_create_failures [where e = sample_env and gd = sample_group_data
      and gclient = anonymous_group_client and glog = "[]" and containerGroup = ?cg
      and glog_checked = "[CG_Get ''rg'' ''web'']"
      and glog_sent = "[CG_Get ''rg'' ''web'', CG_CreateOrUpdate ''rg'' ''web'' ?cg]"
      and glog_reread = "[CG_Get ''rg'' ''web'', CG_CreateOrUpdate ''rg'' ''web'' ?cg, CG_Get ''rg'' ''web'']"
      and sd = sample_service_data and sclient = anonymous_service_client and slog = "[]"
      and parameters = ?cs and slog_checked = "[CS_Get ''rg'' ''svc'']"
      and slog_sent = "[CS_Get ''rg'' ''svc'', CS_CreateOrUpdate ''rg'' ''svc'' ?cs]"
      and slog_reread = "[CS_Get ''rg'' ''svc'', CS_CreateOrUpdate ''rg'' ''svc'' ?cs, CS_Get ''rg'' ''svc'']"]
  have rc: "group_check_passes rejecting_group_client sample_group_data []"
       "container_service_existence_check rejecting_service_client sample_service_data []
          = (None, [CS_Get ''rg'' ''svc''])"
    by (simp_all add: group_check_passes_def container_service_existence_check_def names
        rejecting_group_client_def rejecting_service_client_def empty_group_def empty_service_def
        ResponseWasNotFound_def)
  have ac: "group_check_passes anonymous_group_client sample_group_data []"
       "container_service_existence_check anonymous_service_client sample_service_data []
          = (None, [CS_Get ''rg'' ''svc''])"
    by (simp_all add: group_check_passes_def container_service_existence_check_def names
        anonymous_group_client_def anonymous_service_client_def empty_group_def empty_service_def
        ResponseWasNotFound_def)
  have r1: "resourceArmContainerGroupCreate sample_env rejecting_group_client sample_group_data []
      = Some (Some (ClientError ''InvalidRequest''), sample_group_data,
              [CG_Get ''rg'' ''web'', CG_CreateOrUpdate ''rg'' ''web'' ?cg])"
    using r rc g s by (simp add: names rejecting_group_client_def)
  have r2: "resourceArmContainerServiceCreateUpdate sample_env rejecting_service_client sample_service_data []
      = Some (Some (ClientError ''InvalidRequest''), sample_service_data,
              [CS_Get ''rg'' ''svc'', CS_CreateOrUpdate ''rg'' ''svc'' ?cs])"
    using r rc g s by (simp add: names rejecting_service_client_def)
  have a1: "resourceArmContainerGroupCreate sample_env anonymous_group_client sample_group_data []
      = Some (Some (CannotReadID ''container group'' ''web'' ''rg''), sample_group_data,
              [CG_Get ''rg'' ''web'', CG_CreateOrUpdate ''rg'' ''web'' ?cg, CG_Get ''rg'' ''web''])"
    using a ac g s by (simp add: names anonymous_group_client_def empty_group_def)
  have a2: "resourceArmContainerServiceCreateUpdate sample_env anonymous_service_client sample_service_data []
      = Some (Some (CannotReadID ''Container Service'' ''svc'' ''rg''), sample_service_data,
              [CS_Get ''rg'' ''svc'', CS_CreateOrUpdate ''rg'' ''svc'' ?cs, CS_Get ''rg'' ''svc''])"
    using a ac g s by (simp add: names anonymous_service_client_def empty_service_def)
  show ?thesis
    by (simp add: r1 r2 a1 a2)
qed

subsection \<open>Waiting for the container service\<close>

lemma poll_answer_shift:
  "poll_answer client rg name (log @ [CS_Get rg name]) j = poll_answer client rg name log (Suc j)"
  by (simp add: poll_answer_def replicate_app_Cons_same)

lemma refresh_label:
  assumes "poll_answer client rg name log 0 = Some st"
  shows "\<exists>res. containerServiceStateRefreshFunc client rg name log =
           Some ((Some res, st, None), log @ [CS_Get rg name])"
  using assms
  by (auto simp: poll_answer_def containerServiceStateRefreshFunc_def Let_def
      split: prod.splits option.splits)

lemma wait_pending_step:
  assumes "e < T" and "poll_answer client rg name log 0 = Some st"
    and "st \<in> {''Updating'', ''Creating''}"
  shows "WaitForState (container_service_state_conf client rg name T) e log =
         WaitForState (container_service_state_conf client rg name T) (e + 15) (log @ [CS_Get rg name])"
proof -
  from refresh_label[OF assms(2)] obtain res where
    r: "containerServiceStateRefreshFunc client rg name log =
           Some ((Some res, st, None), log @ [CS_Get rg name])" by blast
  show ?thesis
    using assms(1,3) r
    by (subst WaitForState.simps)
       (auto simp: container_service_state_conf_def poll_interval_def)
qed

lemma wait_unexpected_step:
  assumes "e < T" and "poll_answer client rg name log 0 = Some st"
    and "st \<notin> {''Updating'', ''Creating'', ''Succeeded''}"
  shows "WaitForState (container_service_state_conf client rg name T) e log =
         Some ((None, Some (UnexpectedStateError st)), e, log @ [CS_Get rg name])"
proof -
  from refresh_label[OF assms(2)] obtain res where
    r: "containerServiceStateRefreshFunc client rg name log =
           Some ((Some res, st, None), log @ [CS_Get rg name])" by blast
  show ?thesis
    using assms(1,3) r
    by (subst WaitForState.simps)
       (auto simp: container_service_state_conf_def poll_interval_def)
qed

lemma wait_target_step:
  assumes "e < T" and "poll_answer client rg name log 0 = Some ''Succeeded''"
  shows "\<exists>res. WaitForState (container_service_state_conf client rg name T) e log =
         Some ((Some res, None), e, log @ [CS_Get rg name])"
proof -
  from refresh_label[OF assms(2)] obtain res where
    r: "containerServiceStateRefreshFunc client rg name log =
           Some ((Some res, ''Succeeded'', None), log @ [CS_Get rg name])" by blast
  show ?thesis
    using assms(1) r
    by (subst WaitForState.simps)
       (auto simp: container_service_state_conf_def poll_interval_def)
qed

lemma wait_deadline:
  assumes "T \<le> e"
  shows "WaitForState (container_service_state_conf client rg name T) e log =
         Some ((None, Some TimeoutError), e, log)"
  using assms
  by (subst WaitForState.simps) (simp add: container_service_state_conf_def)

lemma wait_stays_pending:
  assumes "\<forall>j. e + j * 15 < T \<longrightarrow>
             poll_answer client rg name log j \<in> Some ` {''Updating'', ''Creating''}"
  shows "\<exists>e' log'. WaitForState (container_service_state_conf client rg name T) e log =
           Some ((None, Some TimeoutError), e', log') \<and> T \<le> e'"
  using assms
proof (induction "T - e" arbitrary: e log rule: less_induct)
  case less
  show ?case
  proof (cases "T \<le> e")
    case True
    then show ?thesis using wait_deadline[OF True] by blast
  next
    case False
    then have lt: "e < T" by simp
    with less.prems[rule_format, of 0] obtain st where
      st: "poll_answer client rg name log 0 = Some st" "st \<in> {''Updating'', ''Creating''}"
      by auto
    have next_pending: "\<forall>j. (e + 15) + j * 15 < T \<longrightarrow>
        poll_answer client rg name (log @ [CS_Get rg name]) j \<in> Some ` {''Updating'', ''Creating''}"
    proof (intro allI impI)
      fix j assume "(e + 15) + j * 15 < T"
      then have "e + Suc j * 15 < T" by simp
      with less.prems show "poll_answer client rg name (log @ [CS_Get rg name]) j
          \<in> Some ` {''Updating'', ''Creating''}"
        unfolding poll_answer_shift by blast
    qed
    have "T - (e + 15) < T - e" using lt by simp
    from less.hyps[OF this next_pending] wait_pending_step[OF lt st]
    show ?thesis by simp
  qed
qed

lemma wait_fails_at:
  assumes "e + k * 15 < T"
    and "\<forall>j<k. poll_answer client rg name log j \<in> Some ` {''Updating'', ''Creating''}"
    and "poll_answer client rg name log k = Some st"
    and "st \<notin> {''Updating'', ''Creating'', ''Succeeded''}"
  shows "WaitForState (container_service_state_conf client rg name T) e log =
           Some ((None, Some (UnexpectedStateError st)), e + k * 15,
                 log @ replicate (Suc k) (CS_Get rg name))"
  using assms
proof (induction k arbitrary: e log)
  case 0
  then show ?case using wait_unexpected_step[of e T client rg name log st] by simp
next
  case (Suc k)
  from Suc.prems(1) have lt: "e < T" by simp
  from Suc.prems(2)[rule_format, of 0] obtain p where
    p: "poll_answer client rg name log 0 = Some p" "p \<in> {''Updating'', ''Creating''}"
    by auto
  have a: "(e + 15) + k * 15 < T" using Suc.prems(1) by simp
  have b: "\<forall>j<k. poll_answer client rg name (log @ [CS_Get rg name]) j
             \<in> Some ` {''Updating'', ''Creating''}"
    using Suc.prems(2) unfolding poll_answer_shift by auto
  have c: "poll_answer client rg name (log @ [CS_Get rg name]) k = Some st"
    using Suc.prems(3) unfolding poll_answer_shift .
  from Suc.IH[OF a b c Suc.prems(4)] wait_pending_step[OF lt p]
  show ?case by (simp add: replicate_app_Cons_same)
qed

lemma wait_succeeds_at:
  assumes "e + k * 15 < T"
    and "\<forall>j<k. poll_answer client rg name log j \<in> Some ` {''Updating'', ''Creating''}"
    and "poll_answer client rg name log k = Some ''Succeeded''"
  shows "\<exists>res. WaitForState (container_service_state_conf client rg name T) e log =
           Some ((Some res, None), e + k * 15, log @ replicate (Suc k) (CS_Get rg name))"
  using assms
proof (induction k arbitrary: e log)
  case 0
  then show ?case using wait_target_step[of e T client rg name log] by simp
next
  case (Suc k)
  from Suc.prems(1) have lt: "e < T" by simp
  from Suc.prems(2)[rule_format, of 0] obtain p where
    p: "poll_answer client rg name log 0 = Some p" "p \<in> {''Updating'', ''Creating''}"
    by auto
  have a: "(e + 15) + k * 15 < T" using Suc.prems(1) by simp
  have b: "\<forall>j<k. poll_answer client rg name (log @ [CS_Get rg name]) j
             \<in> Some ` {''Updating'', ''Creating''}"
    using Suc.prems(2) unfolding poll_answer_shift by auto
  have c: "poll_answer client rg name (log @ [CS_Get rg name]) k = Some ''Succeeded''"
    using Suc.prems(3) unfolding poll_answer_shift .
  from Suc.IH[OF a b c] obtain res where
    "WaitForState (container_service_state_conf client rg name T) (e + 15) (log @ [CS_Get rg name]) =
       Some ((Some res, None), (e + 15) + k * 15,
             (log @ [CS_Get rg name]) @ replicate (Suc k) (CS_Get rg name))" by blast
  with wait_pending_step[OF lt p]
  have "WaitForState (container_service_state_conf client rg name T) e log =
       Some ((Some res, None), e + Suc k * 15, log @ replicate (Suc (Suc k)) (CS_Get rg name))"
    by (simp add: replicate_app_Cons_same add.assoc)
  then show ?case by blast
qed

text \<open>
  C3. The wait of \<^verbatim>\<open>resourceArmContainerServiceCreateUpdate\<close> (pending Updating and
  Creating, target Succeeded, a poll every 15 seconds, timeout \<open>T\<close>). If every poll
  before the deadline reports a pending label, the run ends with the timeout error, at
  or after the deadline, and not with a failure of the remote. If poll \<open>k\<close>, made
  before the deadline after \<open>k\<close> pending polls, reports a label outside both sets, the
  run ends there with the unexpected-state error: at time \<open>15 k\<close>, before the
  deadline, and after exactly \<open>k + 1\<close> reads.
\<close>

theorem C3_await_terminal_state:
  "((\<forall>j. j * 15 < T \<longrightarrow> poll_answer client rg name log j \<in> Some ` {''Updating'', ''Creating''})
      \<longrightarrow> (\<exists>e' log'. WaitForState (container_service_state_conf client rg name T) 0 log =
                Some ((None, Some TimeoutError), e', log') \<and> T \<le> e'))
   \<and> (k * 15 < T
        \<and> (\<forall>j<k. poll_answer client rg name log j \<in> Some ` {''Updating'', ''Creating''})
        \<and> poll_answer client rg name log k = Some st
        \<and> st \<notin> {''Updating'', ''Creating'', ''Succeeded''}
      \<longrightarrow> WaitForState (container_service_state_conf client rg name T) 0 log =
            Some ((None, Some (UnexpectedStateError st)), k * 15,
                  log @ replicate (Suc k) (CS_Get rg name)))"
  using wait_stays_pending[of 0 T client rg name log] wait_fails_at[of 0 k T client rg name log st]
  by simp

lemma pending_answer: "poll_answer pending_service_client rg name log j = Some ''Updating''"
  by (simp add: poll_answer_def pending_service_client_def server_assigns_def
      remote_container_service_def empty_service_def)

lemma failing_answer:
  "poll_answer failing_service_client rg name [] j = Some (if j < 2 then ''Creating'' else ''Failed'')"
  by (simp add: poll_answer_def failing_service_client_def server_assigns_def
      remote_container_service_def empty_service_def)

theorem C3_witness:
  "(\<exists>e' log'. WaitForState (container_service_state_conf pending_service_client ''rg'' ''a'' 3600) 0 [] =
       Some ((None, Some TimeoutError), e', log') \<and> 3600 \<le> e')
   \<and> WaitForState (container_service_state_conf failing_service_client ''rg'' ''a'' 3600) 0 [] =
       Some ((None, Some (UnexpectedStateError ''Failed'')), 30,
             [CS_Get ''rg'' ''a'', CS_Get ''rg'' ''a'', CS_Get ''rg'' ''a''])"
  using C3_await_terminal_state [where client = pending_service_client and rg = "''rg''"
      and name = "''a''" and log = "[]" and T = 3600 and k = 0 and st = "''Failed''"]
    C3_await_terminal_state [where client = failing_service_client and rg = "''rg''"
      and name = "''a''" and log = "[]" and T = 3600 and k = 2 and st = "''Failed''"]
  by (simp add: pending_answer failing_answer numeral_2_eq_2)

text \<open>
  C8. The scenario of a master profile with count 1 and dns_prefix x: expand gives the
  remote master profile with Count 1 and DNSPrefix x; on the simulated remote the polls
  see Creating, Creating, Succeeded and the wait returns without error, 30 seconds into
  the run; flatten of the remote master profile with its server-assigned fqdn gives
  count 1, dns_prefix x and that fqdn; and the whole of create (check, request, re-read,
  three polls, read) stores that master profile.
\<close>

theorem C8_scenario:
  "expandAzureRmContainerServiceMasterProfile [\<lparr> mpc_count = 1, mpc_dns_prefix = ''x'' \<rparr>]
     = Some \<lparr> mp_Count = Some 1, mp_DNSPrefix = Some ''x'', mp_Fqdn = None \<rparr>
   \<and> map (poll_answer simulated_service_client ''rg'' ''a'' scenario_log) [0, 1, 2]
     = [Some ''Creating'', Some ''Creating'', Some ''Succeeded'']
   \<and> map_option (\<lambda>((res, err), elapsed, log). (err, elapsed))
       (WaitForState (container_service_state_conf simulated_service_client ''rg'' ''a'' 3600) 0
          scenario_log)
     = Some (None, 30)
   \<and> flattenAzureRmContainerServiceMasterProfile H
       \<lparr> mp_Count = Some 1, mp_DNSPrefix = Some ''x'', mp_Fqdn = Some fqdn \<rparr>
     = Some [(H ''1-x-'',
              VMap [(''count'', VInt 1), (''dns_prefix'', VString ''x''), (''fqdn'', VString fqdn)])]
   \<and> map_option (\<lambda>(err, d, log). (err, map_of (sd_attributes d) ''master_profile'', drop 3 log))
       (resourceArmContainerServiceCreateUpdate scenario_env simulated_service_client scenario_data [])
     = Some (None,
             Some (VSet [(4, VMap [(''count'', VInt 1), (''dns_prefix'', VString ''x''),
                                   (''fqdn'', VString ''xmgmt.westus.cloudapp.azure.com'')])]),
             [CS_Get ''rg'' ''a'', CS_Get ''rg'' ''a'', CS_Get ''rg'' ''a'', CS_Get ''rg'' ''a''])"
proof (intro conjI)
  show "expandAzureRmContainerServiceMasterProfile [\<lparr> mpc_count = 1, mpc_dns_prefix = ''x'' \<rparr>]
     = Some \<lparr> mp_Count = Some 1, mp_DNSPrefix = Some ''x'', mp_Fqdn = None \<rparr>"
    by (simp add: expandAzureRmContainerServiceMasterProfile_def index0_def int32_of_int_def)
  show "map (poll_answer simulated_service_client ''rg'' ''a'' scenario_log) [0, 1, 2]
     = [Some ''Creating'', Some ''Creating'', Some ''Succeeded'']"
    by code_simp
  show "map_option (\<lambda>((res, err), elapsed, log). (err, elapsed))
       (WaitForState (container_service_state_conf simulated_service_client ''rg'' ''a'' 3600) 0
          scenario_log)
     = Some (None, 30)"
    by code_simp
  have d: "Sprintf_d 1 = ''1''"
    by code_simp
  show "flattenAzureRmContainerServiceMasterProfile H
       \<lparr> mp_Count = Some 1, mp_DNSPrefix = Some ''x'', mp_Fqdn = Some fqdn \<rparr>
     = Some [(H ''1-x-'',
              VMap [(''count'', VInt 1), (''dns_prefix'', VString ''x''), (''fqdn'', VString fqdn)])]"
    by (simp add: flattenAzureRmContainerServiceMasterProfile_def Set_Add_def
        resourceAzureRMContainerServiceMasterProfileHash_def assert_int_def assert_string_def
        int_of_int32_def d)
  show "map_option (\<lambda>(err, d, log). (err, map_of (sd_attributes d) ''master_profile'', drop 3 log))
       (resourceArmContainerServiceCreateUpdate scenario_env simulated_service_client scenario_data [])
     = Some (None,
             Some (VSet [(4, VMap [(''count'', VInt 1), (''dns_prefix'', VString ''x''),
                                   (''fqdn'', VString ''xmgmt.westus.cloudapp.azure.com'')])]),
             [CS_Get ''rg'' ''a'', CS_Get ''rg'' ''a'', CS_Get ''rg'' ''a'', CS_Get ''rg'' ''a''])"
    by code_simp
qed

subsection \<open>Flatten after expand\<close>





























text \<open>
  A container without a port: expand leaves \<^verbatim>\<open>container.Ports\<close> nil and flatten
  dereferences it.
\<close>

lemma round_trip_without_port_panics:
  "container_group_round_trip
     [\<lparr> c_name = ''web'', c_image = ''nginx'', c_cpu = 1, c_memory = 2, c_port = Some 0,
        c_protocol = Some [], c_environment_variables = Some [], c_command = Some [],
        c_volume = Some [] \<rparr>] = None"
  by code_simp







end
